theory Spec2Isabelle
  imports Complex_Main
begin

section \<open>JavaScript numbers\<close>

text \<open>
  The TypeScript type \<open>number\<close> is modelled by \<open>number\<close>: the finite values are the reals
  they denote, next to the three special values \<open>NaN\<close>, \<open>Infinity\<close> and \<open>-Infinity\<close>.
  The operations below follow the ECMAScript rules for the special values and are exact on
  finite values: rounding to the nearest double and overflow are not modelled, and the two
  zeros are identified (a quotient by zero takes the sign of \<open>+0\<close>).
\<close>

datatype number = NaN | Fin real | PInf | NInf

fun js_neg :: "number \<Rightarrow> number" where
  "js_neg NaN = NaN"
| "js_neg (Fin a) = Fin (- a)"
| "js_neg PInf = NInf"
| "js_neg NInf = PInf"

fun js_add :: "number \<Rightarrow> number \<Rightarrow> number" where
  "js_add NaN b = NaN"
| "js_add (Fin a) NaN = NaN"
| "js_add (Fin a) (Fin b) = Fin (a + b)"
| "js_add (Fin a) PInf = PInf"
| "js_add (Fin a) NInf = NInf"
| "js_add PInf NaN = NaN"
| "js_add PInf (Fin b) = PInf"
| "js_add PInf PInf = PInf"
| "js_add PInf NInf = NaN"
| "js_add NInf NaN = NaN"
| "js_add NInf (Fin b) = NInf"
| "js_add NInf PInf = NaN"
| "js_add NInf NInf = NInf"

definition js_sub :: "number \<Rightarrow> number \<Rightarrow> number" where
  "js_sub a b = js_add a (js_neg b)"

text \<open>A product of zero and an infinity, like a difference of equal infinities, is \<open>NaN\<close>.\<close>

fun js_mul :: "number \<Rightarrow> number \<Rightarrow> number" where
  "js_mul NaN b = NaN"
| "js_mul (Fin a) NaN = NaN"
| "js_mul (Fin a) (Fin b) = Fin (a * b)"
| "js_mul (Fin a) PInf = (if a = 0 then NaN else if 0 < a then PInf else NInf)"
| "js_mul (Fin a) NInf = (if a = 0 then NaN else if 0 < a then NInf else PInf)"
| "js_mul PInf NaN = NaN"
| "js_mul PInf (Fin b) = (if b = 0 then NaN else if 0 < b then PInf else NInf)"
| "js_mul PInf PInf = PInf"
| "js_mul PInf NInf = NInf"
| "js_mul NInf NaN = NaN"
| "js_mul NInf (Fin b) = (if b = 0 then NaN else if 0 < b then NInf else PInf)"
| "js_mul NInf PInf = NInf"
| "js_mul NInf NInf = PInf"

fun js_div :: "number \<Rightarrow> number \<Rightarrow> number" where
  "js_div NaN b = NaN"
| "js_div (Fin a) NaN = NaN"
| "js_div (Fin a) (Fin b) =
     (if b = 0 then (if a = 0 then NaN else if 0 < a then PInf else NInf) else Fin (a / b))"
| "js_div (Fin a) PInf = Fin 0"
| "js_div (Fin a) NInf = Fin 0"
| "js_div PInf NaN = NaN"
| "js_div PInf (Fin b) = (if 0 \<le> b then PInf else NInf)"
| "js_div PInf PInf = NaN"
| "js_div PInf NInf = NaN"
| "js_div NInf NaN = NaN"
| "js_div NInf (Fin b) = (if 0 \<le> b then NInf else PInf)"
| "js_div NInf PInf = NaN"
| "js_div NInf NInf = NaN"

text \<open>The remainder operator \<open>%\<close>: the result has the sign of the dividend.\<close>

fun js_rem :: "number \<Rightarrow> number \<Rightarrow> number" where
  "js_rem (Fin a) (Fin b) =
     (if b = 0 then NaN
      else Fin (a - b * (if 0 \<le> a / b then of_int \<lfloor>a / b\<rfloor> else of_int \<lceil>a / b\<rceil>)))"
| "js_rem (Fin a) PInf = Fin a"
| "js_rem (Fin a) NInf = Fin a"
| "js_rem a b = NaN"

text \<open>Comparisons: every comparison with \<open>NaN\<close> is false, also \<open>NaN === NaN\<close>.\<close>

fun js_lt :: "number \<Rightarrow> number \<Rightarrow> bool" where
  "js_lt NaN b = False"
| "js_lt a NaN = False"
| "js_lt (Fin a) (Fin b) = (a < b)"
| "js_lt (Fin a) PInf = True"
| "js_lt (Fin a) NInf = False"
| "js_lt PInf b = False"
| "js_lt NInf (Fin b) = True"
| "js_lt NInf PInf = True"
| "js_lt NInf NInf = False"

definition js_seq :: "number \<Rightarrow> number \<Rightarrow> bool" where
  "js_seq a b = (a \<noteq> NaN \<and> a = b)"

definition js_gt :: "number \<Rightarrow> number \<Rightarrow> bool" where
  "js_gt a b = js_lt b a"

definition js_le :: "number \<Rightarrow> number \<Rightarrow> bool" where
  "js_le a b = (js_lt a b \<or> js_seq a b)"

definition js_ge :: "number \<Rightarrow> number \<Rightarrow> bool" where
  "js_ge a b = js_le b a"

text \<open>\<open>Math.min\<close> and \<open>Math.max\<close> of two arguments: \<open>NaN\<close> if either argument is.\<close>

definition js_min :: "number \<Rightarrow> number \<Rightarrow> number" where
  "js_min a b = (if a = NaN \<or> b = NaN then NaN else if js_lt b a then b else a)"

definition js_max :: "number \<Rightarrow> number \<Rightarrow> number" where
  "js_max a b = (if a = NaN \<or> b = NaN then NaN else if js_lt a b then b else a)"

section \<open>JavaScript strings\<close>

text \<open>
  A string is the list of its code units; the model covers the code units below 256.
  Of the characters that \<open>trim\<close> removes these are tab, line feed, vertical tab, form feed,
  carriage return, space and the no-break space.
\<close>

definition js_whitespace :: "char \<Rightarrow> bool" where
  "js_whitespace c =
     (c = CHR 0x09 \<or> c = CHR 0x0A \<or> c = CHR 0x0B \<or> c = CHR 0x0C \<or> c = CHR 0x0D
      \<or> c = CHR 0x20 \<or> c = CHR 0xA0)"

definition trim :: "string \<Rightarrow> string" where
  "trim s = rev (dropWhile js_whitespace (rev (dropWhile js_whitespace s)))"

definition startsWith :: "string \<Rightarrow> string \<Rightarrow> bool" where
  "startsWith s p = (take (length p) s = p)"

definition endsWith :: "string \<Rightarrow> string \<Rightarrow> bool" where
  "endsWith s p = (length p \<le> length s \<and> drop (length s - length p) s = p)"

text \<open>\<open>s.substring(a, b)\<close>: both indices are clamped into the string and swapped if needed.\<close>

definition substring :: "string \<Rightarrow> int \<Rightarrow> int \<Rightarrow> string" where
  "substring s a b =
     (let n = int (length s);
          a' = min (max a 0) n;
          b' = min (max b 0) n;
          lo = min a' b';
          hi = max a' b'
      in take (nat (hi - lo)) (drop (nat lo) s))"

definition substring_from :: "string \<Rightarrow> int \<Rightarrow> string" where
  "substring_from s a = substring s a (int (length s))"

text \<open>\<open>s.indexOf(c)\<close> for a single character; \<open>None\<close> stands for \<open>-1\<close>.\<close>

fun indexOf :: "string \<Rightarrow> char \<Rightarrow> nat option" where
  "indexOf [] c = None"
| "indexOf (d # ds) c =
     (if d = c then Some 0 else (case indexOf ds c of None \<Rightarrow> None | Some i \<Rightarrow> Some (Suc i)))"

text \<open>\<open>s.split(c)\<close> for a single-character separator.\<close>

fun split_at :: "char \<Rightarrow> string \<Rightarrow> string \<Rightarrow> string list" where
  "split_at c cur [] = [cur]"
| "split_at c cur (d # ds) =
     (if d = c then cur # split_at c [] ds else split_at c (cur @ [d]) ds)"

definition split_char :: "string \<Rightarrow> char \<Rightarrow> string list" where
  "split_char s c = split_at c [] s"

text \<open>\<open>s.split(/\r?\n/)\<close>: a line feed, with the carriage return before it if there is one.\<close>

fun split_lines_from :: "string \<Rightarrow> string \<Rightarrow> string list" where
  "split_lines_from cur [] = [cur]"
| "split_lines_from cur [c] = (if c = CHR 0x0A then [cur, []] else [cur @ [c]])"
| "split_lines_from cur (c # d # cs) =
     (if c = CHR 0x0D \<and> d = CHR 0x0A then cur # split_lines_from [] cs
      else if c = CHR 0x0A then cur # split_lines_from [] (d # cs)
      else split_lines_from (cur @ [c]) (d # cs))"

definition split_lines :: "string \<Rightarrow> string list" where
  "split_lines s = split_lines_from [] s"

subsection \<open>parseFloat\<close>

text \<open>
  \<open>parseFloat\<close> skips leading white space and reads the longest prefix that is a decimal
  literal: an optional sign, then \<open>Infinity\<close> or digits with an optional fraction and an
  optional exponent. Without such a prefix the result is \<open>NaN\<close>. The value is the exact
  decimal value of the literal.
\<close>

definition is_digit :: "char \<Rightarrow> bool" where
  "is_digit c = (48 \<le> (of_char c :: nat) \<and> (of_char c :: nat) \<le> 57)"

definition digits_value :: "string \<Rightarrow> nat" where
  "digits_value ds = foldl (\<lambda>n c. 10 * n + ((of_char c :: nat) - 48)) 0 ds"

definition scale10 :: "real \<Rightarrow> int \<Rightarrow> real" where
  "scale10 m e = (if 0 \<le> e then m * 10 ^ nat e else m / 10 ^ nat (- e))"

definition exponent_part :: "string \<Rightarrow> int" where
  "exponent_part r =
     (if startsWith r ''e'' \<or> startsWith r ''E'' then
        (let r1 = drop 1 r;
             neg = startsWith r1 ''-'';
             r2 = (if startsWith r1 ''+'' \<or> startsWith r1 ''-'' then drop 1 r1 else r1);
             ds = takeWhile is_digit r2
         in if ds = [] then 0
            else if neg then - int (digits_value ds) else int (digits_value ds))
      else 0)"

definition parseFloat :: "string \<Rightarrow> number" where
  "parseFloat s =
     (let t = dropWhile js_whitespace s;
          neg = startsWith t ''-'';
          u = (if startsWith t ''+'' \<or> startsWith t ''-'' then drop 1 t else t)
      in if startsWith u ''Infinity'' then (if neg then NInf else PInf)
         else
           (let ip = takeWhile is_digit u;
                r1 = dropWhile is_digit u;
                dot = startsWith r1 ''.'';
                fp = (if dot then takeWhile is_digit (drop 1 r1) else []);
                r2 = (if dot then dropWhile is_digit (drop 1 r1) else r1)
            in if ip = [] \<and> fp = [] then NaN
               else
                 (let m = real (digits_value ip) + real (digits_value fp) / 10 ^ length fp;
                      v = scale10 m (exponent_part r2)
                  in Fin (if neg then - v else v))))"

section \<open>The data model (acmi.model.ts)\<close>

text \<open>
  A \<open>Map\<close> keeps its keys in insertion order: \<open>set\<close> replaces the value of a key that is
  present where it stands and appends a new key at the end.
\<close>

fun map_get :: "('k \<times> 'v) list \<Rightarrow> 'k \<Rightarrow> 'v option" where
  "map_get [] k = None"
| "map_get ((k', v) # m) k = (if k' = k then Some v else map_get m k)"

fun map_set :: "('k \<times> 'v) list \<Rightarrow> 'k \<Rightarrow> 'v \<Rightarrow> ('k \<times> 'v) list" where
  "map_set [] k v = [(k, v)]"
| "map_set ((k', v') # m) k v = (if k' = k then (k, v) # m else (k', v') # map_set m k v)"

text \<open>The optional angles \<open>roll?\<close>, \<open>pitch?\<close>, \<open>yaw?\<close> are \<open>None\<close> when undefined.\<close>

record time_state =
  time :: number
  longitude :: number
  latitude :: number
  altitude :: number
  roll :: "number option"
  pitch :: "number option"
  yaw :: "number option"

record acmi_object =
  obj_id :: string
  properties :: "(string \<times> string) list"
  states :: "time_state list"
  removedAtTime :: "number option"

text \<open>A \<open>Date\<close> is kept as the argument its constructor was given.\<close>

datatype js_date = Date_of_string string | Date_of_number number

record acmi_data =
  objects :: "(string \<times> acmi_object) list"
  startTime :: number
  endTime :: number
  referenceTime :: js_date
  referenceLongitude :: number
  referenceLatitude :: number

section \<open>The parser (acmi-parser.service.ts)\<close>

datatype error = FormatError | TypeError

text \<open>\<open>tokenizeLine\<close>: split at the commas that are outside double quotes.\<close>

fun tokenize_from :: "string list \<Rightarrow> string \<Rightarrow> bool \<Rightarrow> string \<Rightarrow> string list" where
  "tokenize_from tokens currentToken inQuotes [] = tokens @ [currentToken]"
| "tokenize_from tokens currentToken inQuotes (c # cs) =
     (let inQuotes' = (if c = CHR 0x22 then \<not> inQuotes else inQuotes)
      in if c = CHR '','' \<and> \<not> inQuotes'
         then tokenize_from (tokens @ [currentToken]) [] inQuotes' cs
         else tokenize_from tokens (currentToken @ [c]) inQuotes' cs)"

definition tokenizeLine :: "string \<Rightarrow> string list" where
  "tokenizeLine line = tokenize_from [] [] False line"

definition splitKeyValue :: "string \<Rightarrow> string \<times> string" where
  "splitKeyValue pair =
     (case indexOf pair CHR ''='' of
        None \<Rightarrow> (pair, [])
      | Some separatorIndex \<Rightarrow>
          (let key = substring pair 0 (int separatorIndex);
               val = substring_from pair (int separatorIndex + 1)
           in (key,
               if startsWith val [CHR 0x22] \<and> endsWith val [CHR 0x22]
               then substring val 1 (int (length val) - 1) else val)))"

text \<open>The local variables of \<open>parse\<close> that the loop over the lines updates.\<close>

record parse_vars =
  v_fileTypeValidated :: bool
  v_fileVersion :: string
  v_referenceTime :: "js_date option"
  v_referenceLongitude :: number
  v_referenceLatitude :: number
  v_objects :: "(string \<times> acmi_object) list"
  v_currentTime :: number
  v_startTime :: "number option"
  v_endTime :: number
  v_inHeader :: bool

definition initial_vars :: parse_vars where
  "initial_vars =
     \<lparr>v_fileTypeValidated = False, v_fileVersion = [], v_referenceTime = None,
      v_referenceLongitude = Fin 0, v_referenceLatitude = Fin 0, v_objects = [],
      v_currentTime = Fin 0, v_startTime = None, v_endTime = Fin 0, v_inHeader = True\<rparr>"

definition process_frame :: "parse_vars \<Rightarrow> string \<Rightarrow> parse_vars" where
  "process_frame v trimmedLine =
     (let currentTime = parseFloat (substring_from trimmedLine 1)
      in v\<lparr>v_inHeader := False, v_currentTime := currentTime,
            v_startTime := (case v_startTime v of None \<Rightarrow> Some currentTime | Some t \<Rightarrow> Some t),
            v_endTime := js_max (v_endTime v) currentTime\<rparr>)"

definition process_header :: "parse_vars \<Rightarrow> string \<Rightarrow> parse_vars" where
  "process_header v trimmedLine =
     (let (key, val) = splitKeyValue trimmedLine
      in if key = ''FileVersion'' then v\<lparr>v_fileVersion := val\<rparr>
         else if key = ''ReferenceTime''
           then v\<lparr>v_referenceTime := Some (Date_of_string (trim val @ ''Z''))\<rparr>
         else if key = ''ReferenceLongitude'' then v\<lparr>v_referenceLongitude := parseFloat val\<rparr>
         else if key = ''ReferenceLatitude'' then v\<lparr>v_referenceLatitude := parseFloat val\<rparr>
         else v)"

definition process_removal :: "parse_vars \<Rightarrow> string \<Rightarrow> parse_vars" where
  "process_removal v trimmedLine =
     (let ident = substring_from trimmedLine 1
      in case map_get (v_objects v) ident of
           None \<Rightarrow> v
         | Some obj \<Rightarrow>
             v\<lparr>v_objects :=
                 map_set (v_objects v) ident (obj\<lparr>removedAtTime := Some (v_currentTime v)\<rparr>)\<rparr>)"

text \<open>An array element, \<open>undefined\<close> beyond the end.\<close>

definition element :: "'a option list \<Rightarrow> nat \<Rightarrow> 'a option" where
  "element xs i = (if i < length xs then xs ! i else None)"

text \<open>The body of the loop over the tokens of an object line after the first.\<close>

definition process_part :: "number \<Rightarrow> acmi_object \<Rightarrow> string \<Rightarrow> acmi_object" where
  "process_part currentTime obj part =
     (let (key, val) = splitKeyValue part
      in if key = [] then obj
         else if key = ''T'' then
           (let vals = map (\<lambda>v. if v \<noteq> [] then Some (parseFloat v) else None)
                           (split_char val CHR ''|'')
            in case (element vals 0, element vals 1, element vals 2) of
                 (Some lon, Some lat, Some alt) \<Rightarrow>
                   obj\<lparr>states := states obj @
                     [\<lparr>time = currentTime, longitude = lon, latitude = lat, altitude = alt,
                       roll = element vals 3, pitch = element vals 4, yaw = element vals 5\<rparr>]\<rparr>
               | _ \<Rightarrow> obj)
         else obj\<lparr>properties := map_set (properties obj) key val\<rparr>)"

definition process_object_line :: "parse_vars \<Rightarrow> string \<Rightarrow> parse_vars" where
  "process_object_line v trimmedLine =
     (case tokenizeLine trimmedLine of
        [] \<Rightarrow> v
      | ident # parts \<Rightarrow>
          (let obj = (case map_get (v_objects v) ident of
                        Some obj \<Rightarrow> obj
                      | None \<Rightarrow> \<lparr>obj_id = ident, properties = [], states = [],
                                 removedAtTime = None\<rparr>)
           in v\<lparr>v_objects :=
                 map_set (v_objects v) ident (foldl (process_part (v_currentTime v)) obj parts)\<rparr>))"

text \<open>The body of the loop over the lines; \<open>Inl\<close> is the exception thrown.\<close>

definition process_line :: "parse_vars \<Rightarrow> string \<Rightarrow> error + parse_vars" where
  "process_line v line =
     (let trimmedLine = trim line
      in if trimmedLine = [] \<or> startsWith trimmedLine ''//'' then Inr v
         else if \<not> v_fileTypeValidated v then
           (if trimmedLine = ''FileType=text/acmi/tacview''
            then Inr (v\<lparr>v_fileTypeValidated := True\<rparr>) else Inl FormatError)
         else if startsWith trimmedLine ''#'' then Inr (process_frame v trimmedLine)
         else if v_inHeader v then Inr (process_header v trimmedLine)
         else if startsWith trimmedLine ''-'' then Inr (process_removal v trimmedLine)
         else Inr (process_object_line v trimmedLine))"

fun parse_lines :: "parse_vars \<Rightarrow> string list \<Rightarrow> error + parse_vars" where
  "parse_lines v [] = Inr v"
| "parse_lines v (line # lines) =
     (case process_line v line of Inl e \<Rightarrow> Inl e | Inr v' \<Rightarrow> parse_lines v' lines)"

definition finish :: "parse_vars \<Rightarrow> acmi_data" where
  "finish v =
     \<lparr>objects = v_objects v,
      startTime = (case v_startTime v of None \<Rightarrow> Fin 0 | Some t \<Rightarrow> t),
      endTime = v_endTime v,
      referenceTime = (case v_referenceTime v of None \<Rightarrow> Date_of_number (Fin 0) | Some d \<Rightarrow> d),
      referenceLongitude = v_referenceLongitude v,
      referenceLatitude = v_referenceLatitude v\<rparr>"

definition parse :: "string \<Rightarrow> error + acmi_data" where
  "parse fileContent =
     (case parse_lines initial_vars (split_lines fileContent) of
        Inl e \<Rightarrow> Inl e
      | Inr v \<Rightarrow> Inr (finish v))"

text \<open>The sample input of the interface description, one line per list element.\<close>

definition sample_lines :: "string list" where
  "sample_lines =
     [''FileType=text/acmi/tacview'',
      ''FileVersion=2.2'',
      ''0,ReferenceTime=2020-01-01T00:00:00'',
      ''0,ReferenceLongitude=30.0'',
      ''0,ReferenceLatitude=50.0'',
      ''#1.00'',
      ''A100,T=30.01|50.01|1000|0|0|90,Name=Test,Color=Red'',
      ''#2.00'',
      ''A100,T=30.02|50.02|1000'',
      ''-A100'']"

definition sample_text :: string where
  "sample_text = concat (map (\<lambda>l. l @ [CHR 0x0A]) sample_lines)"

section \<open>Coordinates and rotations (utils)\<close>

text \<open>
  \<open>Math.cos\<close>, \<open>Math.sin\<close> and \<open>Math.sqrt\<close>, exact on finite arguments like the arithmetic.
\<close>

fun math_cos :: "number \<Rightarrow> number" where
  "math_cos (Fin a) = Fin (cos a)"
| "math_cos a = NaN"

fun math_sin :: "number \<Rightarrow> number" where
  "math_sin (Fin a) = Fin (sin a)"
| "math_sin a = NaN"

fun math_sqrt :: "number \<Rightarrow> number" where
  "math_sqrt (Fin a) = (if a < 0 then NaN else Fin (sqrt a))"
| "math_sqrt PInf = PInf"
| "math_sqrt a = NaN"

record vector3 =
  vec_x :: number
  vec_y :: number
  vec_z :: number

record quaternion =
  quat_w :: number
  quat_x :: number
  quat_y :: number
  quat_z :: number

record euler =
  euler_x :: number
  euler_y :: number
  euler_z :: number
  euler_order :: string

text \<open>
  The operations of the three.js library that the services call. The library is not part
  of the repository: its operations are parameters of the model, \<open>'m\<close> being the type of
  its 4x4 matrices. Each operation stands for the method of the same name, as a function
  from the receiver and the arguments to the value the receiver holds afterwards
  (\<open>setFromQuaternion\<close> is the method of \<open>Euler\<close>, \<open>setFromEuler\<close> the one of
  \<open>Quaternion\<close>). The methods that set a quaternion or an Euler object overwrite all its
  fields, so that the value afterwards does not depend on the value before.
\<close>

record 'm three =
  degToRad :: "number \<Rightarrow> number"
  radToDeg :: "number \<Rightarrow> number"
  applyMatrix4 :: "vector3 \<Rightarrow> 'm \<Rightarrow> vector3"
  distanceTo :: "vector3 \<Rightarrow> vector3 \<Rightarrow> number"
  sub :: "vector3 \<Rightarrow> vector3 \<Rightarrow> vector3"
  divideScalar :: "vector3 \<Rightarrow> number \<Rightarrow> vector3"
  setFromEuler :: "euler \<Rightarrow> quaternion"
  slerp :: "quaternion \<Rightarrow> quaternion \<Rightarrow> number \<Rightarrow> quaternion"
  setFromQuaternion :: "quaternion \<Rightarrow> string \<Rightarrow> euler"
  makeBasis :: "vector3 \<Rightarrow> vector3 \<Rightarrow> vector3 \<Rightarrow> 'm"
  transpose_matrix :: "'m \<Rightarrow> 'm"
  makeTranslation :: "number \<Rightarrow> number \<Rightarrow> number \<Rightarrow> 'm"
  multiply :: "'m \<Rightarrow> 'm \<Rightarrow> 'm"

text \<open>The WGS84 constants \<open>A\<close>, \<open>F\<close> and \<open>E2\<close>.\<close>

definition wgs_A :: number where
  "wgs_A = Fin 6378137"

definition wgs_F :: number where
  "wgs_F = js_div (Fin 1) (Fin 298.257223563)"

definition wgs_E2 :: number where
  "wgs_E2 = js_mul wgs_F (js_sub (Fin 2) wgs_F)"

definition wgs84ToEcef :: "'m three \<Rightarrow> number \<Rightarrow> number \<Rightarrow> number \<Rightarrow> vector3" where
  "wgs84ToEcef L lat lon alt =
     (let latRad = degToRad L lat;
          lonRad = degToRad L lon;
          cosLat = math_cos latRad;
          sinLat = math_sin latRad;
          cosLon = math_cos lonRad;
          sinLon = math_sin lonRad;
          n = js_div wgs_A (math_sqrt (js_sub (Fin 1) (js_mul (js_mul wgs_E2 sinLat) sinLat)))
      in \<lparr>vec_x = js_mul (js_mul (js_add n alt) cosLat) cosLon,
          vec_y = js_mul (js_mul (js_add n alt) cosLat) sinLon,
          vec_z = js_mul (js_add (js_mul n (js_sub (Fin 1) wgs_E2)) alt) sinLat\<rparr>)"

definition ecefToEnu :: "'m three \<Rightarrow> vector3 \<Rightarrow> number \<Rightarrow> number \<Rightarrow> 'm" where
  "ecefToEnu L originEcef lat lon =
     (let latRad = degToRad L lat;
          lonRad = degToRad L lon;
          cosLat = math_cos latRad;
          sinLat = math_sin latRad;
          cosLon = math_cos lonRad;
          sinLon = math_sin lonRad;
          east = \<lparr>vec_x = js_neg sinLon, vec_y = cosLon, vec_z = Fin 0\<rparr>;
          north = \<lparr>vec_x = js_mul (js_neg sinLat) cosLon,
                   vec_y = js_mul (js_neg sinLat) sinLon, vec_z = cosLat\<rparr>;
          up = \<lparr>vec_x = js_mul cosLat cosLon, vec_y = js_mul cosLat sinLon, vec_z = sinLat\<rparr>;
          rotationMatrix = transpose_matrix L (makeBasis L east north up);
          translationMatrix =
            makeTranslation L (js_neg (vec_x originEcef)) (js_neg (vec_y originEcef))
              (js_neg (vec_z originEcef))
      in multiply L rotationMatrix translationMatrix)"

text \<open>
  The module-level scratch objects that the query path writes: \<open>tempEuler\<close> of the
  simulation service and \<open>tempEuler\<close> of the interpolation utilities. (The utilities'
  \<open>tempQuaternion\<close> is only cloned and the service's two scratch vectors are never used.)
\<close>

record scratch =
  sim_tempEuler :: euler
  util_tempEuler :: euler

definition eulerToQuaternion ::
  "'m three \<Rightarrow> number \<Rightarrow> number \<Rightarrow> number \<Rightarrow> scratch \<Rightarrow> quaternion \<times> scratch" where
  "eulerToQuaternion L rollDeg pitchDeg yawDeg sc =
     (let rollRad = degToRad L rollDeg;
          pitchRad = degToRad L pitchDeg;
          yawRad = degToRad L (js_neg yawDeg);
          e = \<lparr>euler_x = pitchRad, euler_y = yawRad, euler_z = rollRad, euler_order = ''ZYX''\<rparr>
      in (setFromEuler L e, sc\<lparr>util_tempEuler := e\<rparr>))"

definition slerpQuaternion :: "'m three \<Rightarrow> quaternion \<Rightarrow> quaternion \<Rightarrow> number \<Rightarrow> quaternion" where
  "slerpQuaternion L q1 q2 t = slerp L q1 q2 t"

section \<open>The simulation engine (simulation.service.ts)\<close>

record interpolated_state =
  pose_id :: string
  pose_x :: number
  pose_y :: number
  pose_z :: number
  qW :: number
  qX :: number
  qY :: number
  qZ :: number
  vX :: number
  vY :: number
  vZ :: number
  color :: string
  isActive :: bool
  speed :: number
  verticalSpeed :: number
  heading :: number

record 'm simulation =
  sim_time :: number
  isPlaying :: bool
  playbackSpeed :: number
  duration :: number
  isDataLoaded :: bool
  acmiData :: "acmi_data option"
  originEcef :: "vector3 option"
  enuMatrix :: "'m option"

definition new_simulation :: "'m simulation" where
  "new_simulation =
     \<lparr>sim_time = Fin 0, isPlaying = False, playbackSpeed = Fin 1, duration = Fin 0,
      isDataLoaded = False, acmiData = None, originEcef = None, enuMatrix = None\<rparr>"

definition loadData :: "'m three \<Rightarrow> acmi_data \<Rightarrow> 'm simulation \<Rightarrow> 'm simulation" where
  "loadData L data s =
     (let origin = wgs84ToEcef L (referenceLatitude data) (referenceLongitude data) (Fin 0)
      in s\<lparr>acmiData := Some data, sim_time := startTime data, duration := endTime data,
            isDataLoaded := True, originEcef := Some origin,
            enuMatrix :=
              Some (ecefToEnu L origin (referenceLatitude data) (referenceLongitude data))\<rparr>)"

definition pause :: "'m simulation \<Rightarrow> 'm simulation" where
  "pause s = s\<lparr>isPlaying := False\<rparr>"

definition tick :: "number \<Rightarrow> 'm simulation \<Rightarrow> 'm simulation" where
  "tick deltaTime s =
     (if \<not> isPlaying s \<or> \<not> isDataLoaded s then s
      else
        (let newTime = js_add (sim_time s) (js_mul deltaTime (playbackSpeed s));
             s1 = s\<lparr>sim_time := js_min newTime (duration s)\<rparr>
         in if js_ge (sim_time s1) (duration s1) then pause s1 else s1))"

definition seek :: "number \<Rightarrow> 'm simulation \<Rightarrow> 'm simulation" where
  "seek newTime s =
     (if \<not> isDataLoaded s then s
      else s\<lparr>sim_time := js_max (Fin 0) (js_min newTime (duration s))\<rparr>)"

definition play :: "'m simulation \<Rightarrow> 'm simulation" where
  "play s =
     (if \<not> isDataLoaded s then s
      else
        (let s1 = (if js_ge (sim_time s) (duration s)
                   then seek (case acmiData s of None \<Rightarrow> Fin 0 | Some d \<Rightarrow> startTime d) s
                   else s)
         in s1\<lparr>isPlaying := True\<rparr>))"

definition setSpeed :: "number \<Rightarrow> 'm simulation \<Rightarrow> 'm simulation" where
  "setSpeed v s = s\<lparr>playbackSpeed := v\<rparr>"

definition reset :: "'m simulation \<Rightarrow> 'm simulation" where
  "reset s =
     (pause s)\<lparr>acmiData := None, isDataLoaded := False, sim_time := Fin 0, duration := Fin 0\<rparr>"

subsection \<open>getInterpolatedState\<close>

definition is_active :: "acmi_object \<Rightarrow> number \<Rightarrow> bool" where
  "is_active obj t =
     (case states obj of
        [] \<Rightarrow> False
      | s0 # rest \<Rightarrow>
          js_ge t (time s0) \<and>
          (case removedAtTime obj of None \<Rightarrow> True | Some r \<Rightarrow> js_lt t r))"

definition defaultState :: "acmi_object \<Rightarrow> interpolated_state" where
  "defaultState obj =
     \<lparr>pose_id = obj_id obj, pose_x = Fin 0, pose_y = Fin 0, pose_z = Fin 0,
      qW = Fin 1, qX = Fin 0, qY = Fin 0, qZ = Fin 0, vX = Fin 0, vY = Fin 0, vZ = Fin 0,
      color = ''gray'', isActive = False, speed = Fin 0, verticalSpeed = Fin 0,
      heading = Fin 0\<rparr>"

text \<open>\<open>findIndex\<close>; \<open>None\<close> stands for \<open>-1\<close>.\<close>

fun findIndex :: "('a \<Rightarrow> bool) \<Rightarrow> 'a list \<Rightarrow> nat option" where
  "findIndex P [] = None"
| "findIndex P (x # xs) =
     (if P x then Some 0 else (case findIndex P xs of None \<Rightarrow> None | Some i \<Rightarrow> Some (Suc i)))"

text \<open>
  The two states to interpolate between. The series is not empty when this is reached, so
  both indices are within the array.
\<close>

definition bracket :: "time_state list \<Rightarrow> number \<Rightarrow> time_state \<times> time_state" where
  "bracket sts t =
     (let i = (case findIndex (\<lambda>s. js_gt (time s) t) sts of
                 None \<Rightarrow> int (length sts)
               | Some j \<Rightarrow> int j)
      in (sts ! nat (max 0 (i - 1)), sts ! nat (min (int (length sts) - 1) i)))"

definition fraction :: "time_state \<Rightarrow> time_state \<Rightarrow> number \<Rightarrow> number" where
  "fraction s1 s2 t =
     (let timeDelta = js_sub (time s2) (time s1)
      in if js_seq timeDelta (Fin 0) then Fin 1 else js_div (js_sub t (time s1)) timeDelta)"

definition lerp :: "number \<Rightarrow> number \<Rightarrow> number \<Rightarrow> number" where
  "lerp a b t = js_add a (js_mul (js_sub b a) t)"

text \<open>\<open>a ?? 0\<close> for an optional angle.\<close>

definition or_zero :: "number option \<Rightarrow> number" where
  "or_zero a = (case a of None \<Rightarrow> Fin 0 | Some v \<Rightarrow> v)"

text \<open>
  Speed, vertical speed and velocity, computed only when \<open>timeDelta > 0\<close> and zero
  otherwise; the result is \<open>(vX, vY, vZ, speed, verticalSpeed)\<close>.
\<close>

definition kinematics ::
  "'m three \<Rightarrow> 'm \<Rightarrow> time_state \<Rightarrow> time_state \<Rightarrow> number
   \<Rightarrow> number \<times> number \<times> number \<times> number \<times> number" where
  "kinematics L m s1 s2 timeDelta =
     (if js_gt timeDelta (Fin 0) then
        (let p1 = applyMatrix4 L (wgs84ToEcef L (latitude s1) (longitude s1) (altitude s1)) m;
             p2 = applyMatrix4 L (wgs84ToEcef L (latitude s2) (longitude s2) (altitude s2)) m;
             distance = distanceTo L p1 p2;
             velocity = divideScalar L (sub L p2 p1) timeDelta
         in (vec_x velocity, vec_y velocity, vec_z velocity,
             js_div distance timeDelta,
             js_div (js_sub (altitude s2) (altitude s1)) timeDelta))
      else (Fin 0, Fin 0, Fin 0, Fin 0, Fin 0))"

text \<open>
  The part of \<open>getInterpolatedState\<close> after the two states are chosen. Applying a matrix that
  is \<open>null\<close> throws a \<open>TypeError\<close>.
\<close>

definition pose_between ::
  "'m three \<Rightarrow> 'm option \<Rightarrow> acmi_object \<Rightarrow> time_state \<Rightarrow> time_state \<Rightarrow> number \<Rightarrow> scratch
   \<Rightarrow> (error + interpolated_state) \<times> scratch" where
  "pose_between L enu obj s1 s2 t0 sc =
     (let timeDelta = js_sub (time s2) (time s1);
          t = fraction s1 s2 t0;
          lon = lerp (longitude s1) (longitude s2) t;
          lat = lerp (latitude s1) (latitude s2) t;
          alt = lerp (altitude s1) (altitude s2) t;
          ecefPos = wgs84ToEcef L lat lon alt
      in case enu of
           None \<Rightarrow> (Inl TypeError, sc)
         | Some m \<Rightarrow>
             (let localPos = applyMatrix4 L ecefPos m;
                  (q1, sc1) = eulerToQuaternion L (or_zero (roll s1)) (or_zero (pitch s1))
                                (or_zero (yaw s1)) sc;
                  (q2, sc2) = eulerToQuaternion L (or_zero (roll s2)) (or_zero (pitch s2))
                                (or_zero (yaw s2)) sc1;
                  q = slerpQuaternion L q1 q2 t;
                  (velX, velY, velZ, spd, vspd) = kinematics L m s1 s2 timeDelta;
                  e = setFromQuaternion L q ''ZYX'';
                  sc3 = sc2\<lparr>sim_tempEuler := e\<rparr>
              in (Inr \<lparr>pose_id = obj_id obj,
                       pose_x = vec_x localPos, pose_y = vec_y localPos, pose_z = vec_z localPos,
                       qW = quat_w q, qX = quat_x q, qY = quat_y q, qZ = quat_z q,
                       vX = velX, vY = velY, vZ = velZ,
                       color = (case map_get (properties obj) ''Color'' of
                                  None \<Rightarrow> ''cyan''
                                | Some c \<Rightarrow> if c = [] then ''cyan'' else c),
                       isActive = True,
                       speed = spd,
                       verticalSpeed = vspd,
                       heading = js_rem (js_add (radToDeg L (euler_y e)) (Fin 360)) (Fin 360)\<rparr>,
                  sc3)))"

definition getInterpolatedState ::
  "'m three \<Rightarrow> 'm option \<Rightarrow> acmi_object \<Rightarrow> number \<Rightarrow> scratch
   \<Rightarrow> (error + interpolated_state) \<times> scratch" where
  "getInterpolatedState L enu obj t sc =
     (if \<not> is_active obj t then (Inr (defaultState obj), sc)
      else (let (s1, s2) = bracket (states obj) t in pose_between L enu obj s1 s2 t sc))"

subsection \<open>interpolatedStates\<close>

text \<open>The loop over the entries of the object map; an exception ends it.\<close>

fun collect_states ::
  "'m three \<Rightarrow> 'm option \<Rightarrow> number \<Rightarrow> (string \<times> acmi_object) list
   \<Rightarrow> (string \<times> interpolated_state) list \<Rightarrow> scratch
   \<Rightarrow> (error + (string \<times> interpolated_state) list) \<times> scratch" where
  "collect_states L enu simTime [] currentStates sc = (Inr currentStates, sc)"
| "collect_states L enu simTime ((ident, obj) # entries) currentStates sc =
     (case getInterpolatedState L enu obj simTime sc of
        (Inl e, sc') \<Rightarrow> (Inl e, sc')
      | (Inr st, sc') \<Rightarrow>
          collect_states L enu simTime entries (map_set currentStates ident st) sc')"

definition interpolatedStates ::
  "'m three \<Rightarrow> 'm simulation \<Rightarrow> scratch
   \<Rightarrow> (error + (string \<times> interpolated_state) list) \<times> scratch" where
  "interpolatedStates L s sc =
     (case acmiData s of
        None \<Rightarrow> (Inr [], sc)
      | Some data \<Rightarrow> collect_states L (enuMatrix s) (sim_time s) (objects data) [] sc)"

section \<open>Notions used in the statements\<close>

subsection \<open>Lines of the input\<close>

definition file_type_header :: string where
  "file_type_header = ''FileType=text/acmi/tacview''"

text \<open>A trimmed line is significant if it is neither empty nor a comment.\<close>

definition significant :: "string \<Rightarrow> bool" where
  "significant l = (\<not> (l = [] \<or> startsWith l ''//''))"

definition significant_lines :: "string \<Rightarrow> string list" where
  "significant_lines fileContent = filter significant (map trim (split_lines fileContent))"

text \<open>
  The times of the frame markers among some significant lines, in order, and the times of
  the frame markers of an input: those of the significant lines after the first.
\<close>

definition frame_times_of :: "string list \<Rightarrow> number list" where
  "frame_times_of ls =
     map (\<lambda>l. parseFloat (substring_from l 1)) (filter (\<lambda>l. startsWith l ''#'') ls)"

definition frame_times :: "string \<Rightarrow> number list" where
  "frame_times fileContent = frame_times_of (drop 1 (significant_lines fileContent))"

text \<open>The greatest of some frame times, \<open>0\<close> if there is none.\<close>

definition greatest_time :: "number list \<Rightarrow> number" where
  "greatest_time ts = (case ts of [] \<Rightarrow> Fin 0 | t # rest \<Rightarrow> foldl js_max t rest)"

text \<open>
  The sub-fields of the value of a \<open>T\<close> token; a sub-field is present if it exists and is
  not empty, and numeric if \<open>parseFloat\<close> reads a number from it.
\<close>

definition sub_fields :: "string \<Rightarrow> string list" where
  "sub_fields part = split_char (snd (splitKeyValue part)) CHR ''|''"

definition present :: "string list \<Rightarrow> nat \<Rightarrow> bool" where
  "present fs i = (i < length fs \<and> fs ! i \<noteq> [])"

definition numeric :: "string list \<Rightarrow> nat \<Rightarrow> bool" where
  "numeric fs i = (i < length fs \<and> parseFloat (fs ! i) \<noteq> NaN)"

definition optional_field :: "string list \<Rightarrow> nat \<Rightarrow> number option" where
  "optional_field fs i = (if present fs i then Some (parseFloat (fs ! i)) else None)"

subsection \<open>Activity and held poses\<close>

text \<open>
  An object is active at \<open>t\<close> if its series is not empty, \<open>t\<close> is not before its first
  sample and it is not removed, or removed only after \<open>t\<close>.
\<close>

definition active_at :: "acmi_object \<Rightarrow> number \<Rightarrow> bool" where
  "active_at obj t =
     (states obj \<noteq> [] \<and> js_ge t (time (states obj ! 0)) \<and>
      (case removedAtTime obj of None \<Rightarrow> True | Some r \<Rightarrow> js_lt t r))"

text \<open>The fixed pose of an inactive object.\<close>

definition inactive_pose :: "string \<Rightarrow> interpolated_state" where
  "inactive_pose ident =
     \<lparr>pose_id = ident, pose_x = Fin 0, pose_y = Fin 0, pose_z = Fin 0,
      qW = Fin 1, qX = Fin 0, qY = Fin 0, qZ = Fin 0, vX = Fin 0, vY = Fin 0, vZ = Fin 0,
      color = ''gray'', isActive = False, speed = Fin 0, verticalSpeed = Fin 0,
      heading = Fin 0\<rparr>"

text \<open>
  The pose of a sample that is held: the pose that the engine resolves when both brackets
  are this sample.
\<close>

definition held_pose ::
  "'m three \<Rightarrow> 'm option \<Rightarrow> acmi_object \<Rightarrow> time_state \<Rightarrow> number \<Rightarrow> scratch
   \<Rightarrow> error + interpolated_state" where
  "held_pose L enu obj e t sc = fst (pose_between L enu obj e e t sc)"

subsection \<open>Finite numbers\<close>

fun is_finite :: "number \<Rightarrow> bool" where
  "is_finite (Fin a) = True"
| "is_finite a = False"

definition finite_state :: "time_state \<Rightarrow> bool" where
  "finite_state s =
     (is_finite (time s) \<and> is_finite (longitude s) \<and> is_finite (latitude s)
      \<and> is_finite (altitude s))"


subsection \<open>Runs of the engine\<close>

text \<open>
  The operations of the service as values, and the state after a sequence of them from the
  state of a new service.
\<close>

datatype operation =
  Load acmi_data | Tick number | Play | Pause | Seek number | SetSpeed number | Reset

fun apply_operation :: "'m three \<Rightarrow> 'm simulation \<Rightarrow> operation \<Rightarrow> 'm simulation" where
  "apply_operation L s (Load d) = loadData L d s"
| "apply_operation L s (Tick dt) = tick dt s"
| "apply_operation L s Play = play s"
| "apply_operation L s Pause = pause s"
| "apply_operation L s (Seek t) = seek t s"
| "apply_operation L s (SetSpeed v) = setSpeed v s"
| "apply_operation L s Reset = reset s"

definition run :: "'m three \<Rightarrow> operation list \<Rightarrow> 'm simulation" where
  "run L ops = foldl (apply_operation L) new_simulation ops"

text \<open>
  A dataset is well timed if its start and end times are finite, the start is not after the
  end and the end is not negative; an operation is regular if its numeric argument is finite
  and the dataset it loads is well timed.
\<close>

definition well_timed :: "acmi_data \<Rightarrow> bool" where
  "well_timed d =
     (is_finite (startTime d) \<and> is_finite (endTime d) \<and> js_le (startTime d) (endTime d)
      \<and> js_le (Fin 0) (endTime d))"

fun regular :: "operation \<Rightarrow> bool" where
  "regular (Load d) = well_timed d"
| "regular (Tick dt) = is_finite dt"
| "regular (Seek t) = is_finite t"
| "regular (SetSpeed v) = is_finite v"
| "regular Play = True"
| "regular Pause = True"
| "regular Reset = True"

text \<open>
  A dataset is ordered if its start time is not after its end time and its end time is not
  negative (so neither is \<open>NaN\<close>); an operation is admissible if the dataset it loads is
  ordered, whatever its numeric argument. A state of the engine is bounded if its duration
  is not negative and its time is \<open>NaN\<close> or not after the duration.
\<close>

definition ordered :: "acmi_data \<Rightarrow> bool" where
  "ordered d = (js_le (startTime d) (endTime d) \<and> js_le (Fin 0) (endTime d))"

fun admissible :: "operation \<Rightarrow> bool" where
  "admissible (Load d) = ordered d"
| "admissible (Tick dt) = True"
| "admissible Play = True"
| "admissible Pause = True"
| "admissible (Seek t) = True"
| "admissible (SetSpeed v) = True"
| "admissible Reset = True"

definition bounded :: "'m simulation \<Rightarrow> bool" where
  "bounded s =
     (js_le (Fin 0) (duration s) \<and> (sim_time s = NaN \<or> js_le (sim_time s) (duration s)))"

text \<open>
  The local frame of a dataset is the matrix that \<open>loadData\<close> computes from its reference
  point; a state of the engine is anchored if the matrix it holds is the local frame of the
  dataset it holds.
\<close>

definition local_frame :: "'m three \<Rightarrow> acmi_data \<Rightarrow> 'm" where
  "local_frame L d =
     ecefToEnu L (wgs84ToEcef L (referenceLatitude d) (referenceLongitude d) (Fin 0))
       (referenceLatitude d) (referenceLongitude d)"

definition anchored :: "'m three \<Rightarrow> 'm simulation \<Rightarrow> bool" where
  "anchored L s =
     (case acmiData s of None \<Rightarrow> True | Some d \<Rightarrow> enuMatrix s = Some (local_frame L d))"

text \<open>
  A state of the engine is tidy if its time, duration and speed are finite, the time is not
  after the duration, the duration is not negative and the start time of its dataset, if it
  has one, is finite.
\<close>

definition tidy :: "'m simulation \<Rightarrow> bool" where
  "tidy s =
     (is_finite (sim_time s) \<and> is_finite (duration s) \<and> is_finite (playbackSpeed s)
      \<and> js_le (sim_time s) (duration s) \<and> js_le (Fin 0) (duration s)
      \<and> (case acmiData s of None \<Rightarrow> True | Some d \<Rightarrow> is_finite (startTime d)))"

subsection \<open>Example inputs\<close>

text \<open>
  An instance of the library parameters, for running the definitions on concrete inputs: it
  converts angles exactly, subtracts and scales vectors by component and takes the Euclidean
  distance; its matrices carry no information and leave a vector as it is, and its rotations
  are all the identity. The theorems hold for every instance.
\<close>

definition example_three :: "unit three" where
  "example_three =
     \<lparr>degToRad = (\<lambda>d. js_mul d (Fin (pi / 180))),
      radToDeg = (\<lambda>r. js_mul r (Fin (180 / pi))),
      applyMatrix4 = (\<lambda>v m. v),
      distanceTo = (\<lambda>a b.
        math_sqrt (js_add (js_add
          (js_mul (js_sub (vec_x a) (vec_x b)) (js_sub (vec_x a) (vec_x b)))
          (js_mul (js_sub (vec_y a) (vec_y b)) (js_sub (vec_y a) (vec_y b))))
          (js_mul (js_sub (vec_z a) (vec_z b)) (js_sub (vec_z a) (vec_z b))))),
      sub = (\<lambda>a b. \<lparr>vec_x = js_sub (vec_x a) (vec_x b), vec_y = js_sub (vec_y a) (vec_y b),
                     vec_z = js_sub (vec_z a) (vec_z b)\<rparr>),
      divideScalar = (\<lambda>a k. \<lparr>vec_x = js_div (vec_x a) k, vec_y = js_div (vec_y a) k,
                              vec_z = js_div (vec_z a) k\<rparr>),
      setFromEuler = (\<lambda>e. \<lparr>quat_w = Fin 1, quat_x = Fin 0, quat_y = Fin 0, quat_z = Fin 0\<rparr>),
      slerp = (\<lambda>a b t. a),
      setFromQuaternion =
        (\<lambda>q order. \<lparr>euler_x = Fin 0, euler_y = Fin 0, euler_z = Fin 0, euler_order = order\<rparr>),
      makeBasis = (\<lambda>a b c. ()),
      transpose_matrix = (\<lambda>m. ()),
      makeTranslation = (\<lambda>a b c. ()),
      multiply = (\<lambda>a b. ())\<rparr>"

definition example_scratch :: scratch where
  "example_scratch =
     \<lparr>sim_tempEuler =
        \<lparr>euler_x = Fin 0, euler_y = Fin 0, euler_z = Fin 0, euler_order = ''XYZ''\<rparr>,
      util_tempEuler =
        \<lparr>euler_x = Fin 0, euler_y = Fin 0, euler_z = Fin 0, euler_order = ''XYZ''\<rparr>\<rparr>"

text \<open>The dataset that \<open>parse\<close> returns for the sample input, and its one object.\<close>

definition sample_object :: acmi_object where
  "sample_object =
     \<lparr>obj_id = ''A100'',
      properties = [(''Name'', ''Test''), (''Color'', ''Red'')],
      states =
        [\<lparr>time = Fin 1, longitude = Fin (3001 / 100), latitude = Fin (5001 / 100),
          altitude = Fin 1000, roll = Some (Fin 0), pitch = Some (Fin 0), yaw = Some (Fin 90)\<rparr>,
         \<lparr>time = Fin 2, longitude = Fin (1501 / 50), latitude = Fin (2501 / 50),
          altitude = Fin 1000, roll = None, pitch = None, yaw = None\<rparr>],
      removedAtTime = Some (Fin 2)\<rparr>"

definition sample_data :: acmi_data where
  "sample_data =
     \<lparr>objects = [(''A100'', sample_object)],
      startTime = Fin 1, endTime = Fin 2,
      referenceTime = Date_of_number (Fin 0),
      referenceLongitude = Fin 0, referenceLatitude = Fin 0\<rparr>"

definition new_object :: "string \<Rightarrow> acmi_object" where
  "new_object ident = \<lparr>obj_id = ident, properties = [], states = [], removedAtTime = None\<rparr>"

text \<open>An input whose only frame marker has a negative time.\<close>

definition negative_frame_text :: string where
  "negative_frame_text = ''FileType=text/acmi/tacview'' @ [CHR 0x0A] @ ''#-5''"

text \<open>
  The engine after the sample dataset is loaded and playback is started, and the sample
  object without its removal.
\<close>

definition playing_state :: "unit simulation" where
  "playing_state = play (loadData example_three sample_data new_simulation)"

definition lasting_object :: acmi_object where
  "lasting_object = sample_object\<lparr>removedAtTime := None\<rparr>"

text \<open>
  An input whose frame marker has no number, the dataset that \<open>parse\<close> returns for it, and
  the engine after this dataset is loaded, playback is started and one second has passed.
\<close>

definition nan_frame_text :: string where
  "nan_frame_text = ''FileType=text/acmi/tacview'' @ [CHR 0x0A] @ ''#x''"

definition nan_frame_data :: acmi_data where
  "nan_frame_data =
     \<lparr>objects = [], startTime = NaN, endTime = NaN,
      referenceTime = Date_of_number (Fin 0),
      referenceLongitude = Fin 0, referenceLatitude = Fin 0\<rparr>"

definition stuck_state :: "unit simulation" where
  "stuck_state = tick (Fin 1) (play (loadData example_three nan_frame_data new_simulation))"




text \<open>
  The dataset of a parser that has read nothing, an input of comments and blank lines only,
  and an input whose file-type header is not its first significant line.
\<close>

definition empty_data :: acmi_data where
  "empty_data =
     \<lparr>objects = [], startTime = Fin 0, endTime = Fin 0,
      referenceTime = Date_of_number (Fin 0),
      referenceLongitude = Fin 0, referenceLatitude = Fin 0\<rparr>"

definition comment_only_lines :: "string list" where
  "comment_only_lines = [''// recorded on the test bench'', [], ''   '', ''// no data'']"

definition comment_only_text :: string where
  "comment_only_text = concat (map (\<lambda>l. l @ [CHR 0x0D, CHR 0x0A]) comment_only_lines)"

definition late_header_lines :: "string list" where
  "late_header_lines =
     [''// recorded on the test bench'', ''FileVersion=2.2'', ''FileType=text/acmi/tacview'']"

definition late_header_text :: string where
  "late_header_text = concat (map (\<lambda>l. l @ [CHR 0x0A]) late_header_lines)"

section \<open>Evaluation of the parser on the sample input\<close>

lemmas string_defs = trim_def js_whitespace_def startsWith_def endsWith_def substring_def
  substring_from_def split_char_def

lemmas float_defs = parseFloat_def is_digit_def digits_value_def scale10_def exponent_part_def

lemmas line_defs = process_line_def process_header_def process_frame_def process_removal_def
  process_object_line_def process_part_def tokenizeLine_def splitKeyValue_def element_def

lemma sample_text_lines: "split_lines sample_text = sample_lines @ [[]]"
  by code_simp

lemma parse_sample: "parse sample_text = Inr sample_data"
  unfolding parse_def sample_text_lines
  by (simp add: sample_lines_def initial_vars_def sample_data_def sample_object_def
      string_defs float_defs line_defs js_max_def finish_def Let_def)

lemma significant_lines_sample: "significant_lines sample_text = sample_lines"
  unfolding significant_lines_def sample_text_lines
  by (simp add: sample_lines_def significant_def string_defs)

text \<open>
  C1. The claim is that for the sample input, whose header has the lines
  \<open>0,ReferenceLongitude=30.0\<close> and \<open>0,ReferenceLatitude=50.0\<close> before the first frame
  marker, \<open>parse\<close> returns a dataset with reference longitude 30 and reference latitude 50.
  The parser does not do this: a header line is split at its first \<open>=\<close> without removing
  the object id \<open>0,\<close> in front, so that its key is \<open>0,ReferenceLongitude\<close>, which no case
  of the switch matches. On the sample input \<open>parse\<close> returns the dataset below, in which
  both reference coordinates are still 0.
\<close>

theorem parse_sample_reference_point:
  "parse sample_text = Inr sample_data
   \<and> referenceLongitude sample_data = Fin 0 \<and> referenceLatitude sample_data = Fin 0
   \<and> fst (splitKeyValue ''0,ReferenceLongitude=30.0'') = ''0,ReferenceLongitude''"
  unfolding parse_def sample_text_lines
  by (simp add: sample_lines_def initial_vars_def sample_data_def sample_object_def
      string_defs float_defs line_defs js_max_def finish_def Let_def)

section \<open>The loop over the lines\<close>

text \<open>What each kind of line does to the variables that the statements are about.\<close>

lemma process_header_flags:
  "v_fileTypeValidated (process_header v l) = v_fileTypeValidated v \<and>
   v_startTime (process_header v l) = v_startTime v \<and>
   v_endTime (process_header v l) = v_endTime v"
  by (simp add: process_header_def split: prod.splits)

lemma process_removal_flags:
  "v_fileTypeValidated (process_removal v l) = v_fileTypeValidated v \<and>
   v_startTime (process_removal v l) = v_startTime v \<and>
   v_endTime (process_removal v l) = v_endTime v"
  by (simp add: process_removal_def Let_def split: option.splits)

lemma process_object_line_flags:
  "v_fileTypeValidated (process_object_line v l) = v_fileTypeValidated v \<and>
   v_startTime (process_object_line v l) = v_startTime v \<and>
   v_endTime (process_object_line v l) = v_endTime v"
  by (simp add: process_object_line_def Let_def split: list.splits)

lemma process_frame_flags:
  "v_fileTypeValidated (process_frame v l) = v_fileTypeValidated v \<and>
   v_startTime (process_frame v l) =
     (case v_startTime v of None \<Rightarrow> Some (parseFloat (substring_from l 1)) | Some t \<Rightarrow> Some t) \<and>
   v_endTime (process_frame v l) = js_max (v_endTime v) (parseFloat (substring_from l 1))"
  by (simp add: process_frame_def Let_def)

lemma process_line_skip:
  "\<not> significant (trim l) \<Longrightarrow> process_line v l = Inr v"
  by (auto simp add: process_line_def significant_def)

lemma process_line_header:
  "significant (trim l) \<Longrightarrow> \<not> v_fileTypeValidated v \<Longrightarrow>
   process_line v l =
     (if trim l = file_type_header then Inr (v\<lparr>v_fileTypeValidated := True\<rparr>) else Inl FormatError)"
  by (auto simp add: process_line_def significant_def file_type_header_def)

text \<open>Once the header line is seen, no line throws, and only frame markers change the times.\<close>

lemma process_line_validated:
  assumes "v_fileTypeValidated v"
  shows "\<exists>v'. process_line v l = Inr v' \<and> v_fileTypeValidated v' \<and>
     v_startTime v' = (case v_startTime v of
                         Some t \<Rightarrow> Some t
                       | None \<Rightarrow> (case frame_times_of (filter significant [trim l]) of
                                    [] \<Rightarrow> None | t # ts \<Rightarrow> Some t)) \<and>
     v_endTime v' = foldl js_max (v_endTime v) (frame_times_of (filter significant [trim l]))"
proof (cases "significant (trim l)")
  case False
  then show ?thesis using assms
    by (simp add: process_line_skip frame_times_of_def split: option.splits)
next
  case True
  then have ne: "trim l \<noteq> []" and nc: "\<not> startsWith (trim l) ''//''"
    by (auto simp add: significant_def)
  show ?thesis
  proof (cases "startsWith (trim l) ''#''")
    case f: True
    with True assms ne nc show ?thesis
      by (simp add: process_line_def Let_def process_frame_flags frame_times_of_def
          split: option.splits)
  next
    case f: False
    with True assms ne nc show ?thesis
      by (simp add: process_line_def Let_def process_header_flags process_removal_flags
          process_object_line_flags frame_times_of_def split: option.splits)
  qed
qed

lemma frame_times_of_append:
  "frame_times_of (xs @ ys) = frame_times_of xs @ frame_times_of ys"
  by (simp add: frame_times_of_def)

lemma parse_lines_validated:
  "v_fileTypeValidated v \<Longrightarrow>
   \<exists>v'. parse_lines v ls = Inr v' \<and>
     v_startTime v' = (case v_startTime v of
                         Some t \<Rightarrow> Some t
                       | None \<Rightarrow> (case frame_times_of (filter significant (map trim ls)) of
                                    [] \<Rightarrow> None | t # ts \<Rightarrow> Some t)) \<and>
     v_endTime v' = foldl js_max (v_endTime v) (frame_times_of (filter significant (map trim ls)))"
proof (induction ls arbitrary: v)
  case Nil
  then show ?case by (simp add: frame_times_of_def split: option.splits)
next
  case (Cons l ls)
  from process_line_validated[OF Cons.prems, of l] obtain v1 where
    v1: "process_line v l = Inr v1" "v_fileTypeValidated v1"
      "v_startTime v1 = (case v_startTime v of
                         Some t \<Rightarrow> Some t
                       | None \<Rightarrow> (case frame_times_of (filter significant [trim l]) of
                                    [] \<Rightarrow> None | t # ts \<Rightarrow> Some t))"
      "v_endTime v1 = foldl js_max (v_endTime v) (frame_times_of (filter significant [trim l]))"
    by blast
  from Cons.IH[OF v1(2)] obtain v' where
    v': "parse_lines v1 ls = Inr v'"
      "v_startTime v' = (case v_startTime v1 of
                         Some t \<Rightarrow> Some t
                       | None \<Rightarrow> (case frame_times_of (filter significant (map trim ls)) of
                                    [] \<Rightarrow> None | t # ts \<Rightarrow> Some t))"
      "v_endTime v' = foldl js_max (v_endTime v1) (frame_times_of (filter significant (map trim ls)))"
    by blast
  have parts: "filter significant (map trim (l # ls)) =
      filter significant [trim l] @ filter significant (map trim ls)"
    by simp
  have "parse_lines v (l # ls) = Inr v'" using v1(1) v'(1) by simp
  moreover have "v_endTime v' = foldl js_max (v_endTime v)
      (frame_times_of (filter significant (map trim (l # ls))))"
    unfolding parts frame_times_of_append using v1(4) v'(3) by simp
  moreover have "v_startTime v' = (case v_startTime v of
                         Some t \<Rightarrow> Some t
                       | None \<Rightarrow> (case frame_times_of (filter significant (map trim (l # ls))) of
                                    [] \<Rightarrow> None | t # ts \<Rightarrow> Some t))"
    unfolding parts frame_times_of_append using v1(3) v'(2)
    by (auto split: option.splits list.splits)
  ultimately show ?case by blast
qed

text \<open>Before the header line is seen, the first significant line decides.\<close>

lemma parse_lines_unvalidated:
  "\<not> v_fileTypeValidated v \<Longrightarrow>
   (case filter significant (map trim ls) of
      [] \<Rightarrow> parse_lines v ls = Inr v
    | l # rest \<Rightarrow>
        if l = file_type_header
        then (\<exists>v'. parse_lines v ls = Inr v' \<and>
               v_startTime v' = (case v_startTime v of
                         Some t \<Rightarrow> Some t
                       | None \<Rightarrow> (case frame_times_of rest of [] \<Rightarrow> None | t # ts \<Rightarrow> Some t)) \<and>
               v_endTime v' = foldl js_max (v_endTime v) (frame_times_of rest))
        else parse_lines v ls = Inl FormatError)"
proof (induction ls)
  case Nil
  then show ?case by simp
next
  case (Cons l ls)
  show ?case
  proof (cases "significant (trim l)")
    case False
    then have a: "parse_lines v (l # ls) = parse_lines v ls"
      by (simp add: process_line_skip)
    from False have b: "filter significant (map trim (l # ls)) = filter significant (map trim ls)"
      by simp
    show ?thesis unfolding a b by (rule Cons.IH[OF Cons.prems])
  next
    case True
    show ?thesis
    proof (cases "trim l = file_type_header")
      case h: True
      have "v_fileTypeValidated (v\<lparr>v_fileTypeValidated := True\<rparr>)" by simp
      from parse_lines_validated[OF this, of ls] show ?thesis
        using True h Cons.prems by (simp add: process_line_header)
    next
      case h: False
      then show ?thesis using True Cons.prems by (simp add: process_line_header)
    qed
  qed
qed

lemma parse_result:
  "(case significant_lines fileContent of
      [] \<Rightarrow> \<exists>d. parse fileContent = Inr d \<and> startTime d = Fin 0 \<and> endTime d = Fin 0
    | l # rest \<Rightarrow>
        if l = file_type_header
        then (\<exists>d. parse fileContent = Inr d \<and>
               startTime d = (case frame_times_of rest of [] \<Rightarrow> Fin 0 | t # ts \<Rightarrow> t) \<and>
               endTime d = foldl js_max (Fin 0) (frame_times_of rest))
        else parse fileContent = Inl FormatError)"
proof -
  have nv: "\<not> v_fileTypeValidated initial_vars"
    by (simp add: initial_vars_def)
  have st: "v_startTime initial_vars = None" "v_endTime initial_vars = Fin 0"
    by (simp_all add: initial_vars_def)
  show ?thesis
    using parse_lines_unvalidated[OF nv, of "split_lines fileContent"]
    unfolding significant_lines_def parse_def
    by (auto simp add: st finish_def split: list.splits option.splits if_splits)
qed

lemma comment_only_text_lines: "split_lines comment_only_text = comment_only_lines @ [[]]"
  by code_simp

lemma late_header_text_lines: "split_lines late_header_text = late_header_lines @ [[]]"
  by code_simp

lemma finish_initial: "finish initial_vars = empty_data"
  by (simp add: finish_def initial_vars_def empty_data_def)

text \<open>
  C6. The claim makes the file-type header mandatory: \<open>parse\<close> is to throw whenever the
  first significant line is not the header, and the message of the exception is that the
  header was not found. The parser does not do this when the header is missing altogether.
  It throws only on meeting a significant line while \<open>fileTypeValidated\<close> is still false,
  and it does not look at this flag again after the loop: for every input without a
  significant line, such as the empty input and an input of comments and blank lines only,
  \<open>parse\<close> returns the dataset of a parser that has read nothing, and throws nothing. An
  input whose first significant line is another line is rejected, also when the header
  follows later.
\<close>

theorem parse_accepts_missing_header:
  "(significant_lines fileContent = [] \<longrightarrow> parse fileContent = Inr empty_data)
   \<and> parse [] = Inr empty_data
   \<and> parse comment_only_text = Inr empty_data
   \<and> parse late_header_text = Inl FormatError"
proof -
  have nv: "\<not> v_fileTypeValidated initial_vars"
    by (simp add: initial_vars_def)
  have general: "significant_lines fileContent = [] \<longrightarrow> parse fileContent = Inr empty_data"
  proof
    assume "significant_lines fileContent = []"
    then have e: "filter significant (map trim (split_lines fileContent)) = []"
      by (simp add: significant_lines_def)
    from parse_lines_unvalidated[OF nv, of "split_lines fileContent"]
    have "parse_lines initial_vars (split_lines fileContent) = Inr initial_vars"
      unfolding e by simp
    then show "parse fileContent = Inr empty_data"
      by (simp add: parse_def finish_initial)
  qed
  have none: "parse [] = Inr empty_data"
    by (simp add: parse_def split_lines_def initial_vars_def empty_data_def string_defs
        line_defs finish_def Let_def)
  have comments: "parse comment_only_text = Inr empty_data"
    unfolding parse_def comment_only_text_lines
    by (simp add: comment_only_lines_def initial_vars_def empty_data_def string_defs
        line_defs finish_def Let_def)
  have late: "parse late_header_text = Inl FormatError"
    unfolding parse_def late_header_text_lines
    by (simp add: late_header_lines_def initial_vars_def string_defs line_defs Let_def)
  from general none comments late show ?thesis by blast
qed

theorem parse_accepts_missing_header_witness:
  "significant_lines comment_only_text = []
   \<and> parse comment_only_text = Inr empty_data
   \<and> objects empty_data = [] \<and> startTime empty_data = Fin 0 \<and> endTime empty_data = Fin 0
   \<and> significant_lines late_header_text = [''FileVersion=2.2'', ''FileType=text/acmi/tacview'']
   \<and> parse late_header_text = Inl FormatError"
proof -
  have a: "significant_lines comment_only_text = []"
    unfolding significant_lines_def comment_only_text_lines
    by (simp add: comment_only_lines_def significant_def string_defs)
  have b: "significant_lines late_header_text = [''FileVersion=2.2'', ''FileType=text/acmi/tacview'']"
    unfolding significant_lines_def late_header_text_lines
    by (simp add: late_header_lines_def significant_def string_defs)
  from parse_accepts_missing_header[of comment_only_text, THEN conjunct1] a
  have c: "parse comment_only_text = Inr empty_data" by simp
  from parse_accepts_missing_header[of "[]"]
  have d: "parse late_header_text = Inl FormatError" by blast
  have e: "objects empty_data = []" "startTime empty_data = Fin 0" "endTime empty_data = Fin 0"
    by (simp_all add: empty_data_def)
  from a b c d e show ?thesis by blast
qed

section \<open>Start and end time\<close>

lemma js_le_refl: "a \<noteq> NaN \<Longrightarrow> js_le a a"
  by (simp add: js_le_def js_seq_def)

lemma js_lt_trans: "js_lt a b \<Longrightarrow> js_lt b c \<Longrightarrow> js_lt a c"
  by (cases a; cases b; cases c) auto

lemma js_le_trans: "js_le a b \<Longrightarrow> js_le b c \<Longrightarrow> js_le a c"
  by (auto simp add: js_le_def js_seq_def dest: js_lt_trans)

lemma js_max_ge:
  "a \<noteq> NaN \<Longrightarrow> b \<noteq> NaN \<Longrightarrow>
   js_le a (js_max a b) \<and> js_le b (js_max a b) \<and> js_max a b \<noteq> NaN \<and>
   (js_max a b = a \<or> js_max a b = b)"
  by (cases a; cases b) (auto simp add: js_max_def js_le_def js_seq_def)

lemma foldl_js_max_greatest:
  "a \<noteq> NaN \<Longrightarrow> NaN \<notin> set ts \<Longrightarrow>
   foldl js_max a ts \<in> set (a # ts) \<and> (\<forall>t \<in> set (a # ts). js_le t (foldl js_max a ts))"
proof (induction ts arbitrary: a)
  case Nil
  then show ?case by (simp add: js_le_refl)
next
  case (Cons b ts)
  then have b: "b \<noteq> NaN" and ts: "NaN \<notin> set ts" by auto
  from js_max_ge[OF Cons.prems(1) b] have m:
    "js_le a (js_max a b)" "js_le b (js_max a b)" "js_max a b \<noteq> NaN"
    "js_max a b = a \<or> js_max a b = b" by auto
  from Cons.IH[OF m(3) ts] have ih:
    "foldl js_max (js_max a b) ts \<in> set (js_max a b # ts)"
    "\<forall>t \<in> set (js_max a b # ts). js_le t (foldl js_max (js_max a b) ts)" by auto
  from ih(2) have top: "js_le (js_max a b) (foldl js_max (js_max a b) ts)" by simp
  show ?case using ih m(4) js_le_trans[OF m(1) top] js_le_trans[OF m(2) top] by auto
qed

lemma parse_times:
  assumes "parse fileContent = Inr d"
  shows "startTime d = (case frame_times fileContent of [] \<Rightarrow> Fin 0 | t # ts \<Rightarrow> t)
    \<and> endTime d = foldl js_max (Fin 0) (frame_times fileContent)"
  using parse_result[of fileContent] assms
  by (auto simp add: frame_times_def frame_times_of_def split: list.splits if_splits)

text \<open>
  C4, as stated: the end time is the greatest frame time also when the frame times are
  negative. This fails for the input whose only frame marker is \<open>#-5\<close>: the end time starts
  at 0 and only grows, so it is 0 and not \<open>-5\<close>.
\<close>

theorem negative_frame_end_time:
  "parse negative_frame_text =
     Inr \<lparr>objects = [], startTime = Fin (- 5), endTime = Fin 0,
          referenceTime = Date_of_number (Fin 0),
          referenceLongitude = Fin 0, referenceLatitude = Fin 0\<rparr>
   \<and> frame_times negative_frame_text = [Fin (- 5)]
   \<and> greatest_time (frame_times negative_frame_text) = Fin (- 5)"
  by (simp add: negative_frame_text_def parse_def split_lines_def initial_vars_def
      frame_times_def frame_times_of_def significant_lines_def significant_def
      greatest_time_def string_defs float_defs line_defs js_max_def finish_def Let_def)

text \<open>
  C4, amended. For every input that parses, the start time is the time of the first frame
  marker (0 if there is none) and the end time is \<open>Math.max\<close> folded over 0 and the frame
  times in order: if no frame time is \<open>NaN\<close> it is the greatest of 0 and the frame times, so
  it is 0 when there is no frame marker and also when every frame time is negative.
\<close>

theorem parse_start_end_time:
  assumes "parse fileContent = Inr d"
  shows "startTime d = (case frame_times fileContent of [] \<Rightarrow> Fin 0 | t # ts \<Rightarrow> t)
    \<and> endTime d = foldl js_max (Fin 0) (frame_times fileContent)
    \<and> (NaN \<notin> set (frame_times fileContent) \<longrightarrow>
         endTime d \<in> set (Fin 0 # frame_times fileContent) \<and>
         (\<forall>t \<in> set (Fin 0 # frame_times fileContent). js_le t (endTime d)))"
proof -
  have se: "startTime d = (case frame_times fileContent of [] \<Rightarrow> Fin 0 | t # ts \<Rightarrow> t)
    \<and> endTime d = foldl js_max (Fin 0) (frame_times fileContent)"
    by (rule parse_times[OF assms])
  moreover have "NaN \<notin> set (frame_times fileContent) \<longrightarrow>
         endTime d \<in> set (Fin 0 # frame_times fileContent) \<and>
         (\<forall>t \<in> set (Fin 0 # frame_times fileContent). js_le t (endTime d))"
    using foldl_js_max_greatest[of "Fin 0" "frame_times fileContent"] se by simp
  ultimately show ?thesis by blast
qed

lemma frame_times_sample: "frame_times sample_text = [Fin 1, Fin 2]"
  unfolding frame_times_def significant_lines_sample
  by (simp add: sample_lines_def frame_times_of_def string_defs float_defs)

theorem parse_start_end_time_witness:
  "parse sample_text = Inr sample_data
   \<and> frame_times sample_text = [Fin 1, Fin 2]
   \<and> startTime sample_data = Fin 1 \<and> endTime sample_data = Fin 2"
  using parse_start_end_time[OF parse_sample] parse_sample frame_times_sample
  by (simp add: js_max_def)

section \<open>Position tokens\<close>

text \<open>
  C3, as stated: a state is appended only if the longitude, latitude and altitude sub-fields
  are all present and numeric. This fails for the token \<open>T=abc|50|1000\<close>: its longitude is
  not numeric, and a state with longitude \<open>NaN\<close> is appended.
\<close>

theorem non_numeric_position_appended:
  "fst (splitKeyValue ''T=abc|50|1000'') = ''T''
   \<and> \<not> numeric (sub_fields ''T=abc|50|1000'') 0
   \<and> states (process_part (Fin 1) (new_object ''A1'') ''T=abc|50|1000'') =
       states (new_object ''A1'') @
       [\<lparr>time = Fin 1, longitude = NaN, latitude = Fin 50, altitude = Fin 1000,
         roll = None, pitch = None, yaw = None\<rparr>]"
  by (simp add: new_object_def numeric_def sub_fields_def string_defs float_defs line_defs Let_def)

text \<open>
  C3, amended. For every token with key exactly \<open>T\<close>, a state is appended to the series if
  and only if the longitude, latitude and altitude sub-fields are all present, that is, not
  empty; its coordinates are what \<open>parseFloat\<close> reads from them. If one of the three is
  missing, the token leaves the object as it is: no state is appended.
\<close>

theorem position_token_appends_when_present:
  assumes "fst (splitKeyValue part) = ''T''"
  shows "process_part currentTime obj part =
     (if present (sub_fields part) 0 \<and> present (sub_fields part) 1 \<and> present (sub_fields part) 2
      then obj\<lparr>states := states obj @
             [\<lparr>time = currentTime,
               longitude = parseFloat (sub_fields part ! 0),
               latitude = parseFloat (sub_fields part ! 1),
               altitude = parseFloat (sub_fields part ! 2),
               roll = optional_field (sub_fields part) 3,
               pitch = optional_field (sub_fields part) 4,
               yaw = optional_field (sub_fields part) 5\<rparr>]\<rparr>
      else obj)"
  using assms
  by (auto simp add: process_part_def sub_fields_def present_def optional_field_def element_def
      Let_def split: prod.splits option.splits)

theorem position_token_appends_when_present_witness:
  "fst (splitKeyValue ''T=30.0||1000'') = ''T''
   \<and> process_part (Fin 2) sample_object ''T=30.0||1000'' = sample_object"
  using position_token_appends_when_present[of "''T=30.0||1000''" "Fin 2" sample_object]
  by (simp add: splitKeyValue_def string_defs sub_fields_def present_def)

section \<open>Order on finite numbers\<close>

lemma is_finite_iff: "is_finite a = (\<exists>r. a = Fin r)"
  by (cases a) simp_all

lemma js_le_Fin [simp]: "js_le (Fin a) (Fin b) = (a \<le> b)"
  by (auto simp add: js_le_def js_seq_def)

lemma js_ge_Fin [simp]: "js_ge (Fin a) (Fin b) = (b \<le> a)"
  by (simp add: js_ge_def)

lemma js_gt_Fin [simp]: "js_gt (Fin a) (Fin b) = (b < a)"
  by (simp add: js_gt_def)

lemma js_min_Fin [simp]: "js_min (Fin a) (Fin b) = Fin (min a b)"
  by (simp add: js_min_def min_def)

lemma js_max_Fin [simp]: "js_max (Fin a) (Fin b) = Fin (max a b)"
  by (simp add: js_max_def max_def)

lemma js_sub_Fin [simp]: "js_sub (Fin a) (Fin b) = Fin (a - b)"
  by (simp add: js_sub_def)

lemma js_lt_not_ge: "js_lt a b \<Longrightarrow> \<not> js_ge a b"
  by (cases a; cases b) (auto simp add: js_ge_def js_le_def js_seq_def)

text \<open>
  A dataset that \<open>parse\<close> returns is ordered if none of its frame times is \<open>NaN\<close>.
\<close>

lemma parse_ordered:
  assumes "parse fileContent = Inr d" "NaN \<notin> set (frame_times fileContent)"
  shows "ordered d"
proof -
  from parse_times[OF assms(1)] have st: "startTime d \<in> set (Fin 0 # frame_times fileContent)"
    and en: "endTime d = foldl js_max (Fin 0) (frame_times fileContent)"
    by (auto split: list.splits)
  from foldl_js_max_greatest[OF _ assms(2), of "Fin 0"] en have
    top: "\<forall>t \<in> set (Fin 0 # frame_times fileContent). js_le t (endTime d)"
    by simp
  from top st have "js_le (startTime d) (endTime d)" by blast
  moreover from top have "js_le (Fin 0) (endTime d)" by simp
  ultimately show ?thesis by (simp add: ordered_def)
qed

section \<open>The playback clock\<close>

lemma tick_finite:
  assumes "sim_time s = Fin a" "playbackSpeed s = Fin v" "duration s = Fin b"
  shows "tick (Fin d) s =
     (if isPlaying s \<and> isDataLoaded s
      then s\<lparr>sim_time := Fin (min (a + d * v) b), isPlaying := (a + d * v < b)\<rparr>
      else s)"
  using assms by (auto simp add: tick_def pause_def Let_def)

lemma seek_finite:
  assumes "duration s = Fin b"
  shows "seek (Fin a) s =
     (if isDataLoaded s then s\<lparr>sim_time := Fin (max 0 (min a b))\<rparr> else s)"
  using assms by (simp add: seek_def)

text \<open>Every regular operation keeps a tidy state tidy.\<close>

lemma tidy_load: "well_timed d \<Longrightarrow> tidy s \<Longrightarrow> tidy (loadData L d s)"
  by (auto simp add: tidy_def well_timed_def loadData_def Let_def is_finite_iff)

lemma tidy_tick: "is_finite dt \<Longrightarrow> tidy s \<Longrightarrow> tidy (tick dt s)"
  by (auto simp add: tidy_def is_finite_iff tick_finite)

lemma tidy_seek: "is_finite t \<Longrightarrow> tidy s \<Longrightarrow> tidy (seek t s)"
  by (auto simp add: tidy_def is_finite_iff seek_finite)

lemma tidy_play: "tidy s \<Longrightarrow> tidy (play s)"
proof -
  assume t: "tidy s"
  have "is_finite (case acmiData s of None \<Rightarrow> Fin 0 | Some d \<Rightarrow> startTime d)"
    using t by (auto simp add: tidy_def split: option.splits)
  from tidy_seek[OF this t] t show ?thesis
    by (auto simp add: play_def tidy_def Let_def)
qed

lemma tidy_step: "regular op \<Longrightarrow> tidy s \<Longrightarrow> tidy (apply_operation L s op)"
proof (cases op)
  case (Load d)
  assume "regular op" "tidy s"
  with Load show ?thesis by (simp add: tidy_load)
next
  case (Tick dt)
  assume "regular op" "tidy s"
  with Tick show ?thesis by (simp add: tidy_tick)
next
  case Play
  assume "regular op" "tidy s"
  with Play show ?thesis by (simp add: tidy_play)
next
  case Pause
  assume "regular op" "tidy s"
  with Pause show ?thesis by (simp add: tidy_def pause_def)
next
  case (Seek t)
  assume "regular op" "tidy s"
  with Seek show ?thesis by (simp add: tidy_seek)
next
  case (SetSpeed v)
  assume "regular op" "tidy s"
  with SetSpeed show ?thesis by (simp add: tidy_def setSpeed_def)
next
  case Reset
  assume "regular op" "tidy s"
  with Reset show ?thesis by (simp add: tidy_def reset_def pause_def)
qed

lemma tidy_foldl:
  "list_all regular ops \<Longrightarrow> tidy s \<Longrightarrow> tidy (foldl (apply_operation L) s ops)"
  by (induction ops arbitrary: s) (simp_all add: tidy_step)

lemma tidy_run: "list_all regular ops \<Longrightarrow> tidy (run L ops)"
  unfolding run_def by (rule tidy_foldl) (simp_all add: tidy_def new_simulation_def)

lemma startTime_sample: "startTime sample_data = Fin 1"
  by (simp add: sample_data_def)

lemma endTime_sample: "endTime sample_data = Fin 2"
  by (simp add: sample_data_def)

lemma well_timed_sample: "well_timed sample_data"
  by (simp add: well_timed_def startTime_sample endTime_sample)

text \<open>
  \<open>Math.min\<close> against the duration: the result is \<open>NaN\<close> or at most the duration, and what
  it is below and at the duration.
\<close>

lemma js_min_bound: "js_min x d = NaN \<or> js_le (js_min x d) d"
  by (cases x; cases d) (auto simp add: js_min_def js_le_def js_seq_def)

lemma js_max_min_bound:
  "js_le (Fin 0) d \<Longrightarrow>
   js_max (Fin 0) (js_min x d) = NaN \<or> js_le (js_max (Fin 0) (js_min x d)) d"
  by (cases x; cases d) (auto simp add: js_min_def js_max_def js_le_def js_seq_def)

lemma js_min_below: "js_lt x d \<Longrightarrow> js_min x d = x \<and> \<not> js_ge x d"
  by (cases x; cases d) (auto simp add: js_min_def js_ge_def js_le_def js_seq_def)

lemma js_min_reached: "js_ge x d \<Longrightarrow> js_min x d = d \<and> js_ge d d"
  by (cases x; cases d) (auto simp add: js_min_def js_ge_def js_le_def js_seq_def)

text \<open>Every admissible operation keeps a bounded state bounded.\<close>

lemma bounded_load: "ordered d \<Longrightarrow> bounded (loadData L d s)"
  by (simp add: bounded_def ordered_def loadData_def Let_def)

lemma bounded_tick: "bounded s \<Longrightarrow> bounded (tick dt s)"
  using js_min_bound[of "js_add (sim_time s) (js_mul dt (playbackSpeed s))" "duration s"]
  by (auto simp add: bounded_def tick_def pause_def Let_def)

lemma bounded_seek: "bounded s \<Longrightarrow> bounded (seek t s)"
  using js_max_min_bound[of "duration s" t]
  by (auto simp add: bounded_def seek_def)

lemma bounded_play: "bounded s \<Longrightarrow> bounded (play s)"
  using bounded_seek[of s "case acmiData s of None \<Rightarrow> Fin 0 | Some d \<Rightarrow> startTime d"]
  by (auto simp add: play_def bounded_def Let_def)

lemma bounded_step: "admissible op \<Longrightarrow> bounded s \<Longrightarrow> bounded (apply_operation L s op)"
proof (cases op)
  case (Load d)
  assume "admissible op" "bounded s"
  with Load show ?thesis by (simp add: bounded_load)
next
  case (Tick dt)
  assume "admissible op" "bounded s"
  with Tick show ?thesis by (simp add: bounded_tick)
next
  case Play
  assume "admissible op" "bounded s"
  with Play show ?thesis by (simp add: bounded_play)
next
  case Pause
  assume "admissible op" "bounded s"
  with Pause show ?thesis by (simp add: bounded_def pause_def)
next
  case (Seek t)
  assume "admissible op" "bounded s"
  with Seek show ?thesis by (simp add: bounded_seek)
next
  case (SetSpeed v)
  assume "admissible op" "bounded s"
  with SetSpeed show ?thesis by (simp add: bounded_def setSpeed_def)
next
  case Reset
  assume "admissible op" "bounded s"
  with Reset show ?thesis by (simp add: bounded_def reset_def pause_def)
qed

lemma bounded_foldl:
  "list_all admissible ops \<Longrightarrow> bounded s \<Longrightarrow> bounded (foldl (apply_operation L) s ops)"
  by (induction ops arbitrary: s) (simp_all add: bounded_step)

lemma bounded_run: "list_all admissible ops \<Longrightarrow> bounded (run L ops)"
  unfolding run_def by (rule bounded_foldl) (simp_all add: bounded_def new_simulation_def)

lemma playing_state_fields:
  "isPlaying playing_state \<and> isDataLoaded playing_state \<and> sim_time playing_state = Fin 1
   \<and> playbackSpeed playing_state = Fin 1 \<and> duration playing_state = Fin 2"
  by (simp add: playing_state_def play_def loadData_def new_simulation_def Let_def
      startTime_sample endTime_sample)

text \<open>
  C8, as stated: in every state that the engine reaches, the time after an advance is at
  most the duration. This fails after the input whose frame marker has no number is loaded:
  the start and end times of its dataset are \<open>NaN\<close>, so that after \<open>play\<close> and a \<open>tick\<close>
  of one second the time and the duration are \<open>NaN\<close>, the engine still plays, and the
  comparison of the time with the duration is false.
\<close>

theorem tick_after_nan_frame:
  "parse nan_frame_text = Inr nan_frame_data
   \<and> sim_time stuck_state = NaN \<and> duration stuck_state = NaN \<and> isPlaying stuck_state
   \<and> \<not> js_le (sim_time stuck_state) (duration stuck_state)"
proof -
  have "parse nan_frame_text = Inr nan_frame_data"
    by (simp add: nan_frame_text_def nan_frame_data_def parse_def split_lines_def
        initial_vars_def string_defs float_defs line_defs js_max_def finish_def Let_def)
  moreover have "sim_time stuck_state = NaN \<and> duration stuck_state = NaN
      \<and> isPlaying stuck_state"
    by (simp add: stuck_state_def tick_def play_def loadData_def new_simulation_def
        nan_frame_data_def js_ge_def js_le_def js_seq_def js_min_def Let_def)
  ultimately show ?thesis by (simp add: js_le_def js_seq_def)
qed

text \<open>
  C8, amended. \<open>tick\<close> leaves the state as it is unless the engine is playing and loaded.
  Otherwise it sets the time to \<open>Math.min\<close> of the duration and the sum of the old time and
  the delta times the playback speed, and playing stays true exactly if the new time is not
  at or beyond the duration; nothing else changes. So if the sum is below the duration the
  new time is the sum, however far below zero, and the engine keeps playing; if the sum is
  at or beyond the duration the new time is the duration and the engine is paused. After a
  \<open>tick\<close> of an engine that is playing and loaded the time is \<open>NaN\<close> or at most the
  duration, and so it is after a \<open>tick\<close> in any state that the engine reaches by operations
  that load ordered datasets only, with any deltas, speeds and seek times; every dataset
  that \<open>parse\<close> returns for an input without a \<open>NaN\<close> frame time is ordered. The time is
  \<open>NaN\<close> when the sum is. The statement is in terms of the sum as computed and of
  comparisons, \<open>Math.min\<close> and \<open>Math.max\<close> only, so it does not depend on how the sum is
  rounded.
\<close>

theorem tick_advances_clamped:
  "(\<not> isPlaying s \<or> \<not> isDataLoaded s \<longrightarrow> tick dt s = s)
   \<and> (isPlaying s \<and> isDataLoaded s \<longrightarrow>
        tick dt s =
          s\<lparr>sim_time := js_min (js_add (sim_time s) (js_mul dt (playbackSpeed s))) (duration s),
            isPlaying :=
              \<not> js_ge (js_min (js_add (sim_time s) (js_mul dt (playbackSpeed s))) (duration s))
                  (duration s)\<rparr>)
   \<and> (isPlaying s \<and> isDataLoaded s
        \<and> js_lt (js_add (sim_time s) (js_mul dt (playbackSpeed s))) (duration s) \<longrightarrow>
        sim_time (tick dt s) = js_add (sim_time s) (js_mul dt (playbackSpeed s))
        \<and> isPlaying (tick dt s))
   \<and> (isPlaying s \<and> isDataLoaded s
        \<and> js_ge (js_add (sim_time s) (js_mul dt (playbackSpeed s))) (duration s) \<longrightarrow>
        sim_time (tick dt s) = duration s \<and> \<not> isPlaying (tick dt s))
   \<and> (isPlaying s \<and> isDataLoaded s \<longrightarrow>
        sim_time (tick dt s) = NaN \<or> js_le (sim_time (tick dt s)) (duration (tick dt s)))
   \<and> (list_all admissible ops \<longrightarrow>
        sim_time (tick dt (run L ops)) = NaN
        \<or> js_le (sim_time (tick dt (run L ops))) (duration (tick dt (run L ops))))
   \<and> (parse fileContent = Inr d \<and> NaN \<notin> set (frame_times fileContent) \<longrightarrow> ordered d)"
proof -
  have idle: "\<not> isPlaying s \<or> \<not> isDataLoaded s \<longrightarrow> tick dt s = s"
    by (simp add: tick_def)
  have general: "isPlaying s \<and> isDataLoaded s \<longrightarrow>
        tick dt s =
          s\<lparr>sim_time := js_min (js_add (sim_time s) (js_mul dt (playbackSpeed s))) (duration s),
            isPlaying :=
              \<not> js_ge (js_min (js_add (sim_time s) (js_mul dt (playbackSpeed s))) (duration s))
                  (duration s)\<rparr>"
    by (auto simp add: tick_def pause_def Let_def)
  have below: "isPlaying s \<and> isDataLoaded s
        \<and> js_lt (js_add (sim_time s) (js_mul dt (playbackSpeed s))) (duration s) \<longrightarrow>
        sim_time (tick dt s) = js_add (sim_time s) (js_mul dt (playbackSpeed s))
        \<and> isPlaying (tick dt s)"
    using js_min_below[of "js_add (sim_time s) (js_mul dt (playbackSpeed s))" "duration s"]
    by (auto simp add: tick_def pause_def Let_def)
  have reached: "isPlaying s \<and> isDataLoaded s
        \<and> js_ge (js_add (sim_time s) (js_mul dt (playbackSpeed s))) (duration s) \<longrightarrow>
        sim_time (tick dt s) = duration s \<and> \<not> isPlaying (tick dt s)"
    using js_min_reached[of "js_add (sim_time s) (js_mul dt (playbackSpeed s))" "duration s"]
    by (auto simp add: tick_def pause_def Let_def)
  have effective: "isPlaying s \<and> isDataLoaded s \<longrightarrow>
        sim_time (tick dt s) = NaN \<or> js_le (sim_time (tick dt s)) (duration (tick dt s))"
    using js_min_bound[of "js_add (sim_time s) (js_mul dt (playbackSpeed s))" "duration s"]
    by (auto simp add: tick_def pause_def Let_def)
  have bound: "list_all admissible ops \<longrightarrow>
        sim_time (tick dt (run L ops)) = NaN
        \<or> js_le (sim_time (tick dt (run L ops))) (duration (tick dt (run L ops)))"
    using bounded_tick[OF bounded_run, of ops dt L] by (simp add: bounded_def)
  have parsed: "parse fileContent = Inr d \<and> NaN \<notin> set (frame_times fileContent) \<longrightarrow>
        ordered d"
    using parse_ordered[of fileContent d] by blast
  from idle general below reached effective bound parsed show ?thesis by blast
qed

theorem tick_advances_clamped_witness:
  "isPlaying playing_state \<and> isDataLoaded playing_state
   \<and> sim_time playing_state = Fin 1 \<and> duration playing_state = Fin 2
   \<and> sim_time (tick (Fin (1/2)) playing_state) = Fin (3/2)
   \<and> isPlaying (tick (Fin (1/2)) playing_state)
   \<and> sim_time (tick (Fin 3) playing_state) = Fin 2
   \<and> \<not> isPlaying (tick (Fin 3) playing_state)
   \<and> sim_time (tick (Fin 3) (setSpeed (Fin (- 1)) playing_state)) = Fin (- 2)
   \<and> isPlaying (tick (Fin 3) (setSpeed (Fin (- 1)) playing_state))
   \<and> tick (Fin 3) (pause playing_state) = pause playing_state
   \<and> sim_time (tick NaN playing_state) = NaN
   \<and> parse sample_text = Inr sample_data \<and> frame_times sample_text = [Fin 1, Fin 2]
   \<and> ordered sample_data
   \<and> list_all admissible [Load sample_data, Play]
   \<and> js_le (sim_time (tick (Fin 3) (run example_three [Load sample_data, Play])))
        (duration (tick (Fin 3) (run example_three [Load sample_data, Play])))"
proof -
  note f = playing_state_fields
  note t = tick_advances_clamped[of _ _ "[Load sample_data, Play]" example_three sample_text
      sample_data]
  have r: "run example_three [Load sample_data, Play] = playing_state"
    by (simp add: run_def playing_state_def)
  from t[of playing_state "Fin (1/2)", THEN conjunct2, THEN conjunct2, THEN conjunct1] f
  have a: "sim_time (tick (Fin (1/2)) playing_state) = Fin (3/2)
      \<and> isPlaying (tick (Fin (1/2)) playing_state)"
    by simp
  from t[of playing_state "Fin 3", THEN conjunct2, THEN conjunct2, THEN conjunct2,
      THEN conjunct1] f
  have b: "sim_time (tick (Fin 3) playing_state) = Fin 2
      \<and> \<not> isPlaying (tick (Fin 3) playing_state)"
    by simp
  from t[of "setSpeed (Fin (- 1)) playing_state" "Fin 3", THEN conjunct2, THEN conjunct2,
      THEN conjunct1] f
  have c: "sim_time (tick (Fin 3) (setSpeed (Fin (- 1)) playing_state)) = Fin (- 2)
      \<and> isPlaying (tick (Fin 3) (setSpeed (Fin (- 1)) playing_state))"
    by (simp add: setSpeed_def)
  from t[of "pause playing_state" "Fin 3", THEN conjunct1]
  have d: "tick (Fin 3) (pause playing_state) = pause playing_state"
    by (simp add: pause_def)
  from t[of playing_state NaN, THEN conjunct2, THEN conjunct1] f
  have n: "sim_time (tick NaN playing_state) = NaN"
    by (simp add: js_min_def)
  from t[of playing_state "Fin 3", THEN conjunct2, THEN conjunct2, THEN conjunct2,
      THEN conjunct2, THEN conjunct2, THEN conjunct2] parse_sample frame_times_sample
  have o: "ordered sample_data"
    by simp
  then have e: "list_all admissible [Load sample_data, Play]"
    by simp
  from t[of playing_state "Fin 3", THEN conjunct2, THEN conjunct2, THEN conjunct2,
      THEN conjunct2, THEN conjunct2, THEN conjunct1] e
  have "sim_time (tick (Fin 3) (run example_three [Load sample_data, Play])) = NaN
      \<or> js_le (sim_time (tick (Fin 3) (run example_three [Load sample_data, Play])))
           (duration (tick (Fin 3) (run example_three [Load sample_data, Play])))"
    by blast
  with b have g: "js_le (sim_time (tick (Fin 3) (run example_three [Load sample_data, Play])))
        (duration (tick (Fin 3) (run example_three [Load sample_data, Play])))"
    unfolding r by simp
  from f a b c d n parse_sample frame_times_sample o e g show ?thesis by blast
qed

text \<open>
  C9. While no dataset is loaded, \<open>tick\<close>, \<open>seek\<close> and \<open>play\<close> leave the whole state of the
  engine as it is (they have no exception to throw). Once a dataset is loaded, \<open>seek\<close> sets
  the time to \<open>Math.max(0, Math.min(t, duration))\<close> and nothing else; for a finite \<open>t\<close> and
  a finite duration that is not negative this is 0 if \<open>t\<close> is negative, the duration if \<open>t\<close>
  is beyond it and \<open>t\<close> otherwise. In every state that the engine reaches by regular
  operations the duration is finite and not negative.
\<close>

theorem not_loaded_no_effect_and_seek_clamps:
  "(\<not> isDataLoaded s \<longrightarrow> tick dt s = s \<and> seek t s = s \<and> play s = s)
   \<and> (isDataLoaded s \<longrightarrow> seek t s = s\<lparr>sim_time := js_max (Fin 0) (js_min t (duration s))\<rparr>)
   \<and> (isDataLoaded s \<and> duration s = Fin b \<and> 0 \<le> b \<longrightarrow>
        seek (Fin a) s = s\<lparr>sim_time := Fin (if a < 0 then 0 else if b < a then b else a)\<rparr>)
   \<and> (list_all regular ops \<longrightarrow> (\<exists>b. duration (run L ops) = Fin b \<and> 0 \<le> b))"
proof -
  have "list_all regular ops \<longrightarrow> (\<exists>b. duration (run L ops) = Fin b \<and> 0 \<le> b)"
    using tidy_run[of ops L] by (auto simp add: tidy_def is_finite_iff)
  then show ?thesis
    by (auto simp add: seek_finite) (simp_all add: tick_def seek_def play_def)
qed

theorem not_loaded_no_effect_and_seek_clamps_witness:
  "\<not> isDataLoaded (new_simulation :: unit simulation)
   \<and> tick (Fin 1) (new_simulation :: unit simulation) = new_simulation
   \<and> seek (Fin 1) (new_simulation :: unit simulation) = new_simulation
   \<and> play (new_simulation :: unit simulation) = new_simulation
   \<and> isDataLoaded playing_state \<and> duration playing_state = Fin 2
   \<and> seek (Fin 5) playing_state = playing_state\<lparr>sim_time := Fin 2\<rparr>
   \<and> seek (Fin (- 1)) playing_state = playing_state\<lparr>sim_time := Fin 0\<rparr>
   \<and> seek (Fin (3/2)) playing_state = playing_state\<lparr>sim_time := Fin (3/2)\<rparr>
   \<and> list_all regular [Load sample_data, Play]"
  using not_loaded_no_effect_and_seek_clamps[of "new_simulation :: unit simulation" "Fin 1"
      "Fin 1" 0 0 "[]" example_three]
    not_loaded_no_effect_and_seek_clamps[of playing_state "Fin 1" "Fin 1" 2 5
      "[Load sample_data, Play]" example_three]
    not_loaded_no_effect_and_seek_clamps[of playing_state "Fin 1" "Fin 1" 2 "- 1" "[]"
      example_three]
    not_loaded_no_effect_and_seek_clamps[of playing_state "Fin 1" "Fin 1" 2 "3/2" "[]"
      example_three]
    playing_state_fields
  by (simp add: new_simulation_def well_timed_sample)

section \<open>Active and inactive objects\<close>

lemma is_active_iff: "is_active obj t = active_at obj t"
  by (cases "states obj") (simp_all add: is_active_def active_at_def)

lemma defaultState_inactive: "defaultState obj = inactive_pose (obj_id obj)"
  by (simp add: defaultState_def inactive_pose_def)

lemma getInterpolatedState_inactive:
  "\<not> active_at obj t \<Longrightarrow>
   getInterpolatedState L enu obj t sc = (Inr (inactive_pose (obj_id obj)), sc)"
  by (simp add: getInterpolatedState_def is_active_iff defaultState_inactive)

lemma getInterpolatedState_active:
  "active_at obj t \<Longrightarrow>
   getInterpolatedState L enu obj t sc =
     pose_between L enu obj (fst (bracket (states obj) t)) (snd (bracket (states obj) t)) t sc"
  by (simp add: getInterpolatedState_def is_active_iff split: prod.splits)

lemma pose_between_Some:
  "\<exists>p. fst (pose_between L (Some m) obj s1 s2 t sc) = Inr p \<and> isActive p
     \<and> pose_id p = obj_id obj
     \<and> color p = (case map_get (properties obj) ''Color'' of
                    None \<Rightarrow> ''cyan'' | Some c \<Rightarrow> if c = [] then ''cyan'' else c)"
  by (simp add: pose_between_def Let_def split: prod.splits)

lemma pose_between_active:
  "fst (pose_between L enu obj s1 s2 t sc) = Inr p \<Longrightarrow> isActive p"
  by (cases enu) (auto simp add: pose_between_def Let_def split: prod.splits)

text \<open>
  C5. For every object and query time, a pose that \<open>getInterpolatedState\<close> returns has
  \<open>isActive\<close> true if and only if the series of the object is not empty, the time is not
  before its first sample and the object is not removed or removed only later. If this
  condition fails, the result is the fixed inactive pose, whose colour is \<open>gray\<close> whatever
  the properties of the object are; so a returned pose with \<open>isActive\<close> false is this pose.
  If the condition holds and the engine has its matrix, a pose is returned. (With the
  condition and no matrix, which no state after a load has, the call throws.)
\<close>

theorem pose_active_flag:
  "(\<forall>p. fst (getInterpolatedState L enu obj t sc) = Inr p \<longrightarrow> isActive p = active_at obj t)
   \<and> (\<not> active_at obj t \<longrightarrow>
        fst (getInterpolatedState L enu obj t sc) = Inr (inactive_pose (obj_id obj))
        \<and> fst (getInterpolatedState L enu (obj\<lparr>properties := ps\<rparr>) t sc) =
            Inr (inactive_pose (obj_id obj)))
   \<and> (\<forall>p. fst (getInterpolatedState L enu obj t sc) = Inr p \<and> \<not> isActive p \<longrightarrow>
          p = inactive_pose (obj_id obj))
   \<and> (active_at obj t \<and> enu \<noteq> None \<longrightarrow>
        (\<exists>p. fst (getInterpolatedState L enu obj t sc) = Inr p \<and> isActive p))"
proof -
  have a: "\<forall>p. fst (getInterpolatedState L enu obj t sc) = Inr p \<longrightarrow> isActive p = active_at obj t"
  proof (cases "active_at obj t")
    case True
    then show ?thesis
      by (auto simp add: getInterpolatedState_active dest: pose_between_active)
  next
    case False
    then show ?thesis
      by (simp add: getInterpolatedState_inactive inactive_pose_def)
  qed
  have b: "\<not> active_at obj t \<longrightarrow>
        fst (getInterpolatedState L enu obj t sc) = Inr (inactive_pose (obj_id obj))
        \<and> fst (getInterpolatedState L enu (obj\<lparr>properties := ps\<rparr>) t sc) =
            Inr (inactive_pose (obj_id obj))"
  proof
    assume n: "\<not> active_at obj t"
    then have "\<not> active_at (obj\<lparr>properties := ps\<rparr>) t"
      by (simp add: active_at_def)
    with n show "fst (getInterpolatedState L enu obj t sc) = Inr (inactive_pose (obj_id obj))
        \<and> fst (getInterpolatedState L enu (obj\<lparr>properties := ps\<rparr>) t sc) =
            Inr (inactive_pose (obj_id obj))"
      by (simp add: getInterpolatedState_inactive)
  qed
  have c: "\<forall>p. fst (getInterpolatedState L enu obj t sc) = Inr p \<and> \<not> isActive p \<longrightarrow>
          p = inactive_pose (obj_id obj)"
  proof (intro allI impI)
    fix p
    assume h: "fst (getInterpolatedState L enu obj t sc) = Inr p \<and> \<not> isActive p"
    with a have "\<not> active_at obj t" by blast
    with b have "fst (getInterpolatedState L enu obj t sc) = Inr (inactive_pose (obj_id obj))"
      by blast
    with h show "p = inactive_pose (obj_id obj)" by simp
  qed
  have d: "active_at obj t \<and> enu \<noteq> None \<longrightarrow>
        (\<exists>p. fst (getInterpolatedState L enu obj t sc) = Inr p \<and> isActive p)"
    using pose_between_Some[of L _ obj]
    by (auto simp add: getInterpolatedState_active) blast
  from a b c d show ?thesis by blast
qed

theorem pose_active_flag_witness:
  "\<not> active_at sample_object (Fin 3)
   \<and> map_get (properties sample_object) ''Color'' = Some ''Red''
   \<and> fst (getInterpolatedState example_three (Some ()) sample_object (Fin 3) example_scratch) =
       Inr (inactive_pose ''A100'')
   \<and> color (inactive_pose ''A100'') = ''gray''
   \<and> active_at sample_object (Fin (3/2))
   \<and> (\<exists>p. fst (getInterpolatedState example_three (Some ()) sample_object (Fin (3/2))
              example_scratch) = Inr p \<and> isActive p)"
proof -
  have off: "\<not> active_at sample_object (Fin 3)" and on: "active_at sample_object (Fin (3/2))"
    by (simp_all add: active_at_def sample_object_def)
  have props: "map_get (properties sample_object) ''Color'' = Some ''Red''"
    "obj_id sample_object = ''A100''" "color (inactive_pose ''A100'') = ''gray''"
    by (simp_all add: sample_object_def inactive_pose_def)
  note flag = pose_active_flag[of example_three "Some ()" sample_object _ example_scratch "[]"]
  from flag[of "Fin 3", THEN conjunct2, THEN conjunct1] off props(2)
  have gone: "fst (getInterpolatedState example_three (Some ()) sample_object (Fin 3)
      example_scratch) = Inr (inactive_pose ''A100'')"
    by simp
  from flag[of "Fin (3/2)", THEN conjunct2, THEN conjunct2, THEN conjunct2] on
  have there: "\<exists>p. fst (getInterpolatedState example_three (Some ()) sample_object (Fin (3/2))
      example_scratch) = Inr p \<and> isActive p"
    by simp
  from off on props gone there show ?thesis by blast
qed

section \<open>The scratch objects\<close>

text \<open>What a call returns does not depend on what the scratch objects hold before it.\<close>

lemma pose_between_fst:
  "fst (pose_between L enu obj s1 s2 t sc) = fst (pose_between L enu obj s1 s2 t sc')"
  by (cases enu) (simp_all add: pose_between_def eulerToQuaternion_def Let_def split: prod.splits)

lemma getInterpolatedState_fst:
  "fst (getInterpolatedState L enu obj t sc) = fst (getInterpolatedState L enu obj t sc')"
  using pose_between_fst[of L enu obj _ _ t sc sc']
  by (simp add: getInterpolatedState_def split: prod.splits)

lemma collect_states_fst:
  "fst (collect_states L enu t entries acc sc) = fst (collect_states L enu t entries acc sc')"
proof (induction entries arbitrary: acc sc sc')
  case Nil
  then show ?case by simp
next
  case (Cons entry entries)
  obtain ident obj where entry: "entry = (ident, obj)" by (cases entry)
  obtain r1 sc1 where r1: "getInterpolatedState L enu obj t sc = (r1, sc1)"
    by (cases "getInterpolatedState L enu obj t sc")
  obtain r2 sc2 where r2: "getInterpolatedState L enu obj t sc' = (r2, sc2)"
    by (cases "getInterpolatedState L enu obj t sc'")
  have same: "r2 = r1"
    using getInterpolatedState_fst[of L enu obj t sc sc'] r1 r2 by simp
  show ?case
  proof (cases r1)
    case (Inl e)
    then show ?thesis unfolding entry by (simp add: r1 r2 same)
  next
    case (Inr st)
    then show ?thesis unfolding entry
      using Cons.IH[of "map_set acc ident st" sc1 sc2] by (simp add: r1 r2 same)
  qed
qed

text \<open>Every state that the engine reaches is anchored.\<close>

lemma anchored_step: "anchored L s \<Longrightarrow> anchored L (apply_operation L s op)"
  by (cases op)
    (auto simp add: anchored_def local_frame_def loadData_def tick_def play_def pause_def
      seek_def setSpeed_def reset_def Let_def split: option.splits)

lemma anchored_foldl: "anchored L s \<Longrightarrow> anchored L (foldl (apply_operation L) s ops)"
  by (induction ops arbitrary: s) (simp_all add: anchored_step)

lemma anchored_run: "anchored L (run L ops)"
  unfolding run_def by (rule anchored_foldl) (simp add: anchored_def new_simulation_def)

lemma interpolatedStates_anchored:
  assumes "anchored L s" "anchored L s'" "acmiData s = acmiData s'" "sim_time s = sim_time s'"
  shows "fst (interpolatedStates L s sc) = fst (interpolatedStates L s' sc')"
proof (cases "acmiData s")
  case None
  with assms(3) show ?thesis by (simp add: interpolatedStates_def)
next
  case (Some d)
  with assms(3) have d': "acmiData s' = Some d" by simp
  from assms(1,2) Some d' have "enuMatrix s = enuMatrix s'" by (simp add: anchored_def)
  with Some d' assms(4) show ?thesis
    using collect_states_fst[of L "enuMatrix s'" "sim_time s'" "objects d" "[]" sc sc']
    by (simp add: interpolatedStates_def)
qed

lemma seek_run:
  "acmiData (run example_three [Load sample_data, Seek (Fin (3/2))]) = Some sample_data
   \<and> sim_time (run example_three [Load sample_data, Seek (Fin (3/2))]) = Fin (3/2)
   \<and> \<not> isPlaying (run example_three [Load sample_data, Seek (Fin (3/2))])"
  by (simp add: run_def loadData_def seek_def new_simulation_def Let_def
      startTime_sample endTime_sample)

lemma tick_run:
  "acmiData (run example_three [Load sample_data, Play, Tick (Fin (1/2))]) = Some sample_data
   \<and> sim_time (run example_three [Load sample_data, Play, Tick (Fin (1/2))]) = Fin (3/2)
   \<and> isPlaying (run example_three [Load sample_data, Play, Tick (Fin (1/2))])"
  by (simp add: run_def loadData_def play_def tick_def new_simulation_def Let_def
      startTime_sample endTime_sample)

text \<open>
  C7. \<open>interpolatedStates\<close> reads the state of the engine and writes only the two scratch
  objects: it returns the pose map (or the exception) and the scratch objects, so the
  dataset and the engine are after a call what they were before it. The result does not
  depend on what the scratch objects hold, so a second evaluation, which starts from the
  scratch objects that the first one left, returns the same result. Among the states that
  the engine reaches, the result is a function of the dataset and the time alone: two such
  states with the same dataset and the same time give the same result, whatever operations
  led to them.
\<close>

theorem interpolatedStates_pure:
  "fst (interpolatedStates L s sc) = fst (interpolatedStates L s sc')
   \<and> fst (interpolatedStates L s (snd (interpolatedStates L s sc))) =
       fst (interpolatedStates L s sc)
   \<and> (acmiData (run L ops) = acmiData (run L ops')
        \<and> sim_time (run L ops) = sim_time (run L ops') \<longrightarrow>
        fst (interpolatedStates L (run L ops) sc) = fst (interpolatedStates L (run L ops') sc'))"
proof -
  have "\<And>a b. fst (interpolatedStates L s a) = fst (interpolatedStates L s b)"
    by (cases "acmiData s") (simp_all add: interpolatedStates_def collect_states_fst[of L _ _ _ _ _])
  then show ?thesis
    using interpolatedStates_anchored[OF anchored_run anchored_run, of L ops ops' sc sc']
    by blast
qed

theorem interpolatedStates_pure_witness:
  "acmiData (run example_three [Load sample_data, Seek (Fin (3/2))]) =
     acmiData (run example_three [Load sample_data, Play, Tick (Fin (1/2))])
   \<and> sim_time (run example_three [Load sample_data, Seek (Fin (3/2))]) =
       sim_time (run example_three [Load sample_data, Play, Tick (Fin (1/2))])
   \<and> isPlaying (run example_three [Load sample_data, Seek (Fin (3/2))]) \<noteq>
       isPlaying (run example_three [Load sample_data, Play, Tick (Fin (1/2))])
   \<and> fst (interpolatedStates example_three
            (run example_three [Load sample_data, Seek (Fin (3/2))]) example_scratch) =
       fst (interpolatedStates example_three
            (run example_three [Load sample_data, Play, Tick (Fin (1/2))])
            (snd (interpolatedStates example_three
               (run example_three [Load sample_data, Seek (Fin (3/2))]) example_scratch)))"
proof -
  note same = interpolatedStates_pure[of example_three
      "run example_three [Load sample_data, Seek (Fin (3/2))]" example_scratch
      "snd (interpolatedStates example_three
               (run example_three [Load sample_data, Seek (Fin (3/2))]) example_scratch)"
      "[Load sample_data, Seek (Fin (3/2))]" "[Load sample_data, Play, Tick (Fin (1/2))]",
      THEN conjunct2, THEN conjunct2]
  from seek_run tick_run have eq:
    "acmiData (run example_three [Load sample_data, Seek (Fin (3/2))]) =
       acmiData (run example_three [Load sample_data, Play, Tick (Fin (1/2))])"
    "sim_time (run example_three [Load sample_data, Seek (Fin (3/2))]) =
       sim_time (run example_three [Load sample_data, Play, Tick (Fin (1/2))])"
    "isPlaying (run example_three [Load sample_data, Seek (Fin (3/2))]) \<noteq>
       isPlaying (run example_three [Load sample_data, Play, Tick (Fin (1/2))])"
    by simp_all
  from same eq show ?thesis by blast
qed

section \<open>The two states to interpolate between\<close>

lemma findIndex_None: "(findIndex P xs = None) = (\<forall>x \<in> set xs. \<not> P x)"
  by (induction xs) (auto split: option.splits)


lemma nat_int_pred: "nat (int n - 1) = n - 1"
  by linarith

text \<open>With no sample after \<open>t\<close>, both states are the last sample.\<close>

lemma bracket_last:
  assumes "sts \<noteq> []" "findIndex (\<lambda>s. js_gt (time s) t) sts = None"
  shows "bracket sts t = (last sts, last sts)"
proof -
  from assms(1) have "0 < length sts" by simp
  then have a: "max 0 (int (length sts) - 1) = int (length sts) - 1"
    and b: "min (int (length sts) - 1) (int (length sts)) = int (length sts) - 1"
    by auto
  show ?thesis
    using assms by (simp add: bracket_def a b nat_int_pred last_conv_nth)
qed


section \<open>Holding the last sample\<close>

lemma lerp_same: "is_finite a \<Longrightarrow> lerp a a (Fin 1) = a"
  by (cases a) (simp_all add: lerp_def)

lemma fraction_same: "is_finite (time e) \<Longrightarrow> fraction e e t = Fin 1"
  by (cases "time e") (simp_all add: fraction_def js_seq_def)

lemma kinematics_same:
  "is_finite (time e) \<Longrightarrow>
   kinematics L m e e (js_sub (time e) (time e)) = (Fin 0, Fin 0, Fin 0, Fin 0, Fin 0)"
  by (cases "time e") (simp_all add: kinematics_def)

lemma held_pose_finite:
  assumes "finite_state e"
  shows "\<exists>p. held_pose L (Some m) obj e t sc = Inr p
     \<and> pose_x p = vec_x (applyMatrix4 L (wgs84ToEcef L (latitude e) (longitude e) (altitude e)) m)
     \<and> pose_y p = vec_y (applyMatrix4 L (wgs84ToEcef L (latitude e) (longitude e) (altitude e)) m)
     \<and> pose_z p = vec_z (applyMatrix4 L (wgs84ToEcef L (latitude e) (longitude e) (altitude e)) m)
     \<and> speed p = Fin 0 \<and> verticalSpeed p = Fin 0
     \<and> vX p = Fin 0 \<and> vY p = Fin 0 \<and> vZ p = Fin 0 \<and> isActive p"
  using assms
  by (simp add: held_pose_def pose_between_def finite_state_def lerp_same fraction_same
      kinematics_same Let_def split: prod.splits)

lemma held_pose_not_inactive: "held_pose L enu obj e t sc \<noteq> Inr (inactive_pose ident)"
  by (cases enu) (simp_all add: held_pose_def pose_between_def inactive_pose_def Let_def
      split: prod.splits)

text \<open>
  C2, as stated: at a time strictly before the first sample or strictly after the last one
  the result is the held pose of that sample. This fails for the sample object, whose
  samples are at the times 1 and 2 and which is removed at time 2. At the time 0.5 it is
  not active yet and at the time 3 it is not active any more: both results are the fixed
  inactive pose, which is not the held pose of a sample.
\<close>

theorem outside_samples_inactive:
  "states sample_object \<noteq> []
   \<and> js_lt (Fin (1/2)) (time (hd (states sample_object)))
   \<and> fst (getInterpolatedState example_three (Some ()) sample_object (Fin (1/2)) example_scratch) =
       Inr (inactive_pose ''A100'')
   \<and> fst (getInterpolatedState example_three (Some ()) sample_object (Fin (1/2)) example_scratch) \<noteq>
       held_pose example_three (Some ()) sample_object (hd (states sample_object)) (Fin (1/2))
         example_scratch
   \<and> js_lt (time (last (states sample_object))) (Fin 3)
   \<and> fst (getInterpolatedState example_three (Some ()) sample_object (Fin 3) example_scratch) =
       Inr (inactive_pose ''A100'')
   \<and> fst (getInterpolatedState example_three (Some ()) sample_object (Fin 3) example_scratch) \<noteq>
       held_pose example_three (Some ()) sample_object (last (states sample_object)) (Fin 3)
         example_scratch"
proof -
  have a: "fst (getInterpolatedState example_three (Some ()) sample_object (Fin (1/2))
      example_scratch) = Inr (inactive_pose ''A100'')"
    by (simp add: getInterpolatedState_def is_active_def sample_object_def defaultState_def
        inactive_pose_def)
  have b: "fst (getInterpolatedState example_three (Some ()) sample_object (Fin 3)
      example_scratch) = Inr (inactive_pose ''A100'')"
    by (simp add: getInterpolatedState_def is_active_def sample_object_def defaultState_def
        inactive_pose_def)
  have c: "states sample_object \<noteq> []"
    "js_lt (Fin (1/2)) (time (hd (states sample_object)))"
    "js_lt (time (last (states sample_object))) (Fin 3)"
    by (simp_all add: sample_object_def)
  show ?thesis
    unfolding a b
    using held_pose_not_inactive[of example_three "Some ()" sample_object
        "hd (states sample_object)" "Fin (1/2)" example_scratch "''A100''"]
      held_pose_not_inactive[of example_three "Some ()" sample_object
        "last (states sample_object)" "Fin 3" example_scratch "''A100''"]
      c
    by (auto simp del: last.simps hd_conv_nth)
qed

text \<open>
  C2, amended. For every object whose series is not empty: at a time strictly before the
  first sample the object is inactive and the result is the fixed inactive pose; at a time
  at which the object is active and which no sample is after (so at every time after the
  last sample of a chronological series, until the object is removed), if the last sample
  is finite, both states are the last sample and the result is its held pose: the position
  is the local position of the last sample, and the speed, the vertical speed and the
  velocity are zero.
\<close>

theorem endpoint_hold:
  assumes "states obj \<noteq> []"
  shows "(js_lt t (time (hd (states obj))) \<longrightarrow>
           fst (getInterpolatedState L enu obj t sc) = Inr (inactive_pose (obj_id obj)))
   \<and> (active_at obj t \<and> (\<forall>s \<in> set (states obj). \<not> js_gt (time s) t)
        \<and> finite_state (last (states obj)) \<longrightarrow>
        fst (getInterpolatedState L (Some m) obj t sc) =
          held_pose L (Some m) obj (last (states obj)) t sc
        \<and> (\<exists>p. fst (getInterpolatedState L (Some m) obj t sc) = Inr p
             \<and> pose_x p = vec_x (applyMatrix4 L (wgs84ToEcef L (latitude (last (states obj)))
                  (longitude (last (states obj))) (altitude (last (states obj)))) m)
             \<and> pose_y p = vec_y (applyMatrix4 L (wgs84ToEcef L (latitude (last (states obj)))
                  (longitude (last (states obj))) (altitude (last (states obj)))) m)
             \<and> pose_z p = vec_z (applyMatrix4 L (wgs84ToEcef L (latitude (last (states obj)))
                  (longitude (last (states obj))) (altitude (last (states obj)))) m)
             \<and> speed p = Fin 0 \<and> verticalSpeed p = Fin 0
             \<and> vX p = Fin 0 \<and> vY p = Fin 0 \<and> vZ p = Fin 0 \<and> isActive p))"
proof -
  have before: "js_lt t (time (hd (states obj))) \<longrightarrow>
           fst (getInterpolatedState L enu obj t sc) = Inr (inactive_pose (obj_id obj))"
  proof
    assume "js_lt t (time (hd (states obj)))"
    then have "\<not> js_ge t (time (states obj ! 0))"
      using assms by (simp add: js_lt_not_ge hd_conv_nth)
    then have "\<not> active_at obj t" by (simp add: active_at_def)
    then show "fst (getInterpolatedState L enu obj t sc) = Inr (inactive_pose (obj_id obj))"
      by (simp add: getInterpolatedState_inactive)
  qed
  have after: "active_at obj t \<and> (\<forall>s \<in> set (states obj). \<not> js_gt (time s) t)
        \<and> finite_state (last (states obj)) \<longrightarrow>
        fst (getInterpolatedState L (Some m) obj t sc) =
          held_pose L (Some m) obj (last (states obj)) t sc
        \<and> (\<exists>p. fst (getInterpolatedState L (Some m) obj t sc) = Inr p
             \<and> pose_x p = vec_x (applyMatrix4 L (wgs84ToEcef L (latitude (last (states obj)))
                  (longitude (last (states obj))) (altitude (last (states obj)))) m)
             \<and> pose_y p = vec_y (applyMatrix4 L (wgs84ToEcef L (latitude (last (states obj)))
                  (longitude (last (states obj))) (altitude (last (states obj)))) m)
             \<and> pose_z p = vec_z (applyMatrix4 L (wgs84ToEcef L (latitude (last (states obj)))
                  (longitude (last (states obj))) (altitude (last (states obj)))) m)
             \<and> speed p = Fin 0 \<and> verticalSpeed p = Fin 0
             \<and> vX p = Fin 0 \<and> vY p = Fin 0 \<and> vZ p = Fin 0 \<and> isActive p)"
  proof
    assume h: "active_at obj t \<and> (\<forall>s \<in> set (states obj). \<not> js_gt (time s) t)
        \<and> finite_state (last (states obj))"
    then have none: "findIndex (\<lambda>s. js_gt (time s) t) (states obj) = None"
      by (simp add: findIndex_None)
    have eq: "fst (getInterpolatedState L (Some m) obj t sc) =
          held_pose L (Some m) obj (last (states obj)) t sc"
      using h by (simp add: getInterpolatedState_active bracket_last[OF assms none] held_pose_def)
    from h have "finite_state (last (states obj))" by simp
    from held_pose_finite[OF this, of L m obj t sc] eq
    show "fst (getInterpolatedState L (Some m) obj t sc) =
          held_pose L (Some m) obj (last (states obj)) t sc
        \<and> (\<exists>p. fst (getInterpolatedState L (Some m) obj t sc) = Inr p
             \<and> pose_x p = vec_x (applyMatrix4 L (wgs84ToEcef L (latitude (last (states obj)))
                  (longitude (last (states obj))) (altitude (last (states obj)))) m)
             \<and> pose_y p = vec_y (applyMatrix4 L (wgs84ToEcef L (latitude (last (states obj)))
                  (longitude (last (states obj))) (altitude (last (states obj)))) m)
             \<and> pose_z p = vec_z (applyMatrix4 L (wgs84ToEcef L (latitude (last (states obj)))
                  (longitude (last (states obj))) (altitude (last (states obj)))) m)
             \<and> speed p = Fin 0 \<and> verticalSpeed p = Fin 0
             \<and> vX p = Fin 0 \<and> vY p = Fin 0 \<and> vZ p = Fin 0 \<and> isActive p)"
      by simp
  qed
  from before after show ?thesis by blast
qed

theorem endpoint_hold_witness:
  "states lasting_object \<noteq> []
   \<and> js_lt (Fin (1/2)) (time (hd (states lasting_object)))
   \<and> fst (getInterpolatedState example_three (Some ()) lasting_object (Fin (1/2))
            example_scratch) = Inr (inactive_pose ''A100'')
   \<and> active_at lasting_object (Fin 3)
   \<and> list_all (\<lambda>s. \<not> js_gt (time s) (Fin 3)) (states lasting_object)
   \<and> finite_state (last (states lasting_object))
   \<and> (\<exists>p. fst (getInterpolatedState example_three (Some ()) lasting_object (Fin 3)
              example_scratch) = Inr p
         \<and> speed p = Fin 0 \<and> verticalSpeed p = Fin 0 \<and> isActive p)"
proof -
  have ne: "states lasting_object \<noteq> []"
    by (simp add: lasting_object_def sample_object_def)
  have before: "js_lt (Fin (1/2)) (time (hd (states lasting_object)))"
    by (simp add: lasting_object_def sample_object_def)
  have ident: "obj_id lasting_object = ''A100''"
    by (simp add: lasting_object_def sample_object_def)
  have after: "active_at lasting_object (Fin 3)"
    "\<forall>s \<in> set (states lasting_object). \<not> js_gt (time s) (Fin 3)"
    "finite_state (last (states lasting_object))"
    by (simp_all add: lasting_object_def sample_object_def active_at_def finite_state_def)
  note hold = endpoint_hold[OF ne, of _ example_three "Some ()" example_scratch "()"]
  from hold[of "Fin (1/2)", THEN conjunct1] before ident
  have inactive: "fst (getInterpolatedState example_three (Some ()) lasting_object (Fin (1/2))
      example_scratch) = Inr (inactive_pose ''A100'')"
    by simp
  from hold[of "Fin 3", THEN conjunct2] after
  have held: "\<exists>p. fst (getInterpolatedState example_three (Some ()) lasting_object (Fin 3)
      example_scratch) = Inr p \<and> speed p = Fin 0 \<and> verticalSpeed p = Fin 0 \<and> isActive p"
    by blast
  from after(2) have all: "list_all (\<lambda>s. \<not> js_gt (time s) (Fin 3)) (states lasting_object)"
    by (simp add: list_all_iff)
  from ne before inactive after(1,3) all held show ?thesis by blast
qed

section \<open>Interpolation between the two states\<close>











end
